theory Spec2Isabelle
  imports Complex_Main
begin

section \<open>Python values, objects and the store\<close>

text \<open>
  The module \<^verbatim>\<open>mlprodict/onnxrt/shape_object.py\<close> builds dimension objects and operator
  nodes that refer to each other, reads \<^verbatim>\<open>id(self)\<close> and relies on the identity
  comparison Python gives to a class without \<^verbatim>\<open>__eq__\<close>. Objects therefore live in a
  store. An address is the position of the object in the store, in the order of
  allocation; nothing is ever freed.

  A value is \<^verbatim>\<open>None\<close>, an \<^verbatim>\<open>int\<close>, a \<^verbatim>\<open>str\<close>, a \<^verbatim>\<open>bytes\<close> (the representative
  of the types the module rejects) or a reference to an object of the store.
\<close>

datatype error =
    TypeError | ValueError | IndexError | RuntimeError | NotImplementedError
  | AttributeError | RecursionError | ZeroDivisionError

datatype pyval = PyNone | PyInt int | PyStr string | PyBytes string | PyRef nat

text \<open>The three subclasses of \<^verbatim>\<open>ShapeOperator\<close> that the module defines.\<close>

datatype opkind = ShapeOperatorAdd | ShapeOperatorMul | ShapeOperatorMax

text \<open>
  An object is a \<^verbatim>\<open>DimensionObject\<close> with its field \<^verbatim>\<open>_dim\<close>, or a binary
  \<^verbatim>\<open>ShapeOperator\<close> with the addresses of its two arguments (\<^verbatim>\<open>_args\<close>): the
  constructor accepts nothing but dimension objects there.
\<close>

datatype obj = DimensionObject pyval | ShapeOperator opkind nat nat

type_synonym heap = "obj list"

definition heap_get :: "heap \<Rightarrow> nat \<Rightarrow> obj option" where
  "heap_get h a = (if a < length h then Some (h ! a) else None)"

definition alloc :: "heap \<Rightarrow> obj \<Rightarrow> heap \<times> nat" where
  "alloc h ob = (h @ [ob], length h)"

fun isinstance_int :: "pyval \<Rightarrow> bool" where
  "isinstance_int (PyInt i) = True"
| "isinstance_int v = False"

fun isinstance_str :: "pyval \<Rightarrow> bool" where
  "isinstance_str (PyStr s) = True"
| "isinstance_str v = False"

fun isinstance_DimensionObject :: "heap \<Rightarrow> pyval \<Rightarrow> bool" where
  "isinstance_DimensionObject h (PyRef a) =
     (case heap_get h a of Some (DimensionObject d) \<Rightarrow> True | _ \<Rightarrow> False)"
| "isinstance_DimensionObject h v = False"

fun isinstance_ShapeOperator :: "heap \<Rightarrow> pyval \<Rightarrow> bool" where
  "isinstance_ShapeOperator h (PyRef a) =
     (case heap_get h a of Some (ShapeOperator k x y) \<Rightarrow> True | _ \<Rightarrow> False)"
| "isinstance_ShapeOperator h v = False"

fun addr_of :: "pyval \<Rightarrow> nat" where
  "addr_of (PyRef a) = a"
| "addr_of v = 0"

text \<open>
  Every reference the module stores in an object points to an object that existed
  before: the constructors store references to their arguments, and \<^verbatim>\<open>_dim\<close> is
  assigned after construction in one place only, with the string \<^verbatim>\<open>'n'\<close>. So a reference
  held by the object at address \<open>a\<close> is below \<open>a\<close>. The recursive methods follow
  references; on a store that breaks this order, which no run of the module builds,
  they stop with \<open>RecursionError\<close>.
\<close>

fun older :: "nat \<Rightarrow> pyval \<Rightarrow> bool" where
  "older a (PyRef r) = (r < a)"
| "older a v = True"

fun sz :: "pyval \<Rightarrow> nat" where
  "sz (PyRef r) = Suc r"
| "sz v = 0"

subsection \<open>Printing integers\<close>

definition digit_char :: "nat \<Rightarrow> char" where
  "digit_char d = ''0123456789abcdef'' ! d"

text \<open>\<^verbatim>\<open>hex(n)[2:]\<close> for a natural number.\<close>

function hex :: "nat \<Rightarrow> string" where
  "hex n = (if n < 16 then [digit_char n] else hex (n div 16) @ [digit_char (n mod 16)])"
  by pat_completeness auto
termination
  by (relation "measure id") auto

function decimal :: "nat \<Rightarrow> string" where
  "decimal n = (if n < 10 then [digit_char n] else decimal (n div 10) @ [digit_char (n mod 10)])"
  by pat_completeness auto
termination
  by (relation "measure id") auto

declare hex.simps [simp del] decimal.simps [simp del]

text \<open>\<^verbatim>\<open>str(i)\<close> for an integer.\<close>

definition str_int :: "int \<Rightarrow> string" where
  "str_int i = (if i < 0 then CHR ''-'' # decimal (nat (- i)) else decimal (nat i))"

section \<open>Evaluating a dimension\<close>

text \<open>
  \<^verbatim>\<open>evaluate\<close> returns an integer or a string. The keyword arguments bind a name to
  its value, an integer or another name.
\<close>

datatype val = VInt int | VStr string

fun isinstance_str_val :: "val \<Rightarrow> bool" where
  "isinstance_str_val (VStr s) = True"
| "isinstance_str_val v = False"

fun str_val :: "val \<Rightarrow> string" where
  "str_val (VInt i) = str_int i"
| "str_val (VStr s) = s"

fun pyval_of :: "val \<Rightarrow> pyval" where
  "pyval_of (VInt i) = PyInt i"
| "pyval_of (VStr s) = PyStr s"

text \<open>The field \<^verbatim>\<open>_name\<close> and the function \<^verbatim>\<open>_fct\<close> each subclass passes to the base class.\<close>

fun op_name :: "opkind \<Rightarrow> string" where
  "op_name ShapeOperatorAdd = ''+''"
| "op_name ShapeOperatorMul = ''*''"
| "op_name ShapeOperatorMax = ''max''"

fun op_fct :: "opkind \<Rightarrow> int \<Rightarrow> int \<Rightarrow> int" where
  "op_fct ShapeOperatorAdd a b = a + b"
| "op_fct ShapeOperatorMul a b = a * b"
| "op_fct ShapeOperatorMax a b = max a b"

text \<open>
  \<^verbatim>\<open>_evaluate_string_\<close>: \<^verbatim>\<open>ShapeBinaryOperator\<close> joins the parenthesised arguments with
  the name, \<^verbatim>\<open>ShapeBinaryFctOperator\<close> (the class of \<^verbatim>\<open>ShapeOperatorMax\<close>) writes a call.
\<close>

fun evaluate_string :: "opkind \<Rightarrow> val \<Rightarrow> val \<Rightarrow> string" where
  "evaluate_string ShapeOperatorMax x y =
     op_name ShapeOperatorMax @ ''('' @ str_val x @ '','' @ str_val y @ '')''"
| "evaluate_string k x y =
     ''('' @ str_val x @ '')'' @ op_name k @ ''('' @ str_val y @ '')''"

text \<open>The end of \<^verbatim>\<open>ShapeOperator.evaluate\<close>, once both arguments are evaluated.\<close>

fun apply_operator :: "opkind \<Rightarrow> val \<Rightarrow> val \<Rightarrow> val" where
  "apply_operator k (VInt a) (VInt b) = VInt (op_fct k a b)"
| "apply_operator k x y = VStr (evaluate_string k x y)"

text \<open>
  \<^verbatim>\<open>id(self)\<close>. CPython returns the address of the object in memory, which Python does
  not fix. The model puts the object at position \<open>a\<close> of the store 16 bytes after the
  one before it, from a base address: what carries over to a run of the module is that
  the same object keeps its number and two objects have different ones, not the digits.
\<close>

definition obj_id :: "nat \<Rightarrow> nat" where
  "obj_id a = 140000000000000 + 16 * a"

text \<open>
  \<^verbatim>\<open>DimensionObject.evaluate\<close> and \<^verbatim>\<open>ShapeOperator.evaluate\<close>, for the object at
  address \<open>a\<close>. Both are declared \<^verbatim>\<open>evaluate(self, **kwargs)\<close>, so Python refuses a
  call whose keyword arguments bind the name \<^verbatim>\<open>self\<close> with \<^verbatim>\<open>TypeError\<close>. An unknown
  dimension evaluates to the name \<^verbatim>\<open>'n' + hex(id(self))[2:]\<close>.
\<close>

function evaluate :: "heap \<Rightarrow> (string \<rightharpoonup> val) \<Rightarrow> nat \<Rightarrow> error + val" where
  "evaluate h kwargs a =
     (if kwargs ''self'' \<noteq> None then Inl TypeError
      else
        (case heap_get h a of
           None \<Rightarrow> Inl AttributeError
         | Some (DimensionObject d) \<Rightarrow>
             (case d of
                PyInt i \<Rightarrow> Inr (VInt i)
              | PyRef r \<Rightarrow> (if r < a then evaluate h kwargs r else Inl RecursionError)
              | PyStr s \<Rightarrow> (case kwargs s of Some v \<Rightarrow> Inr v | None \<Rightarrow> Inr (VStr s))
              | PyNone \<Rightarrow> Inr (VStr (CHR ''n'' # hex (obj_id a)))
              | PyBytes b \<Rightarrow> Inl NotImplementedError)
         | Some (ShapeOperator k x y) \<Rightarrow>
             (if x < a \<and> y < a then
                (case evaluate h kwargs x of
                   Inl e \<Rightarrow> Inl e
                 | Inr vx \<Rightarrow>
                     (case evaluate h kwargs y of
                        Inl e \<Rightarrow> Inl e
                      | Inr vy \<Rightarrow> Inr (apply_operator k vx vy)))
              else Inl RecursionError)))"
  by pat_completeness auto
termination
  by (relation "measure (\<lambda>(h, kwargs, a). a)") auto

declare evaluate.simps [simp del]

text \<open>
  The leaves of the expression at address \<open>a\<close>, from left to right: the values of
  \<^verbatim>\<open>_dim\<close> that \<^verbatim>\<open>evaluate\<close> reaches and that are not references to follow. A
  reference that cannot be followed stays as a leaf.
\<close>

function leaves :: "heap \<Rightarrow> nat \<Rightarrow> pyval list" where
  "leaves h a =
     (case heap_get h a of
        None \<Rightarrow> [PyRef a]
      | Some (DimensionObject d) \<Rightarrow>
          (case d of
             PyRef r \<Rightarrow> (if r < a then leaves h r else [PyRef r])
           | _ \<Rightarrow> [d])
      | Some (ShapeOperator k x y) \<Rightarrow>
          (if x < a \<and> y < a then leaves h x @ leaves h y else [PyRef a]))"
  by pat_completeness auto
termination
  by (relation "measure (\<lambda>(h, a). a)") auto

declare leaves.simps [simp del]

text \<open>The free symbols of the expression at address \<open>a\<close>: the names among its leaves.\<close>

fun symbol_of :: "pyval \<Rightarrow> string list" where
  "symbol_of (PyStr s) = [s]"
| "symbol_of v = []"

definition free_symbols :: "heap \<Rightarrow> nat \<Rightarrow> string list" where
  "free_symbols h a = concat (map symbol_of (leaves h a))"

text \<open>A binding resolves a name to an integer.\<close>

definition resolves :: "(string \<rightharpoonup> val) \<Rightarrow> string \<Rightarrow> bool" where
  "resolves kwargs s = (case kwargs s of Some (VInt i) \<Rightarrow> True | _ \<Rightarrow> False)"

text \<open>
  The expression at address \<open>a\<close> is one the constructors build when each of its leaves
  is \<^verbatim>\<open>None\<close>, an integer or a name; it holds an unknown dimension when \<^verbatim>\<open>None\<close> is
  among them.
\<close>

fun constructed_leaf :: "pyval \<Rightarrow> bool" where
  "constructed_leaf PyNone = True"
| "constructed_leaf (PyInt i) = True"
| "constructed_leaf (PyStr s) = True"
| "constructed_leaf v = False"

definition constructed :: "heap \<Rightarrow> nat \<Rightarrow> bool" where
  "constructed h a = list_all constructed_leaf (leaves h a)"

definition has_unknown :: "heap \<Rightarrow> nat \<Rightarrow> bool" where
  "has_unknown h a = (PyNone \<in> set (leaves h a))"

section \<open>Comparing dimensions\<close>

text \<open>
  \<open>py_eq h v w\<close> is Python's \<^verbatim>\<open>v == w\<close>. When \<open>v\<close> is a dimension object its
  \<^verbatim>\<open>__eq__\<close> runs; when only \<open>w\<close> is one, the type of \<open>v\<close> does not know how to compare
  with it and Python runs the \<^verbatim>\<open>__eq__\<close> of \<open>w\<close> with the operands swapped; the other
  values are equal when they are the same value, and two operator nodes when they are
  the same object.
\<close>

function DimensionObject_eq :: "heap \<Rightarrow> nat \<Rightarrow> pyval \<Rightarrow> error + bool"
  and py_eq :: "heap \<Rightarrow> pyval \<Rightarrow> pyval \<Rightarrow> error + bool" where
  "DimensionObject_eq h self v =
     (case heap_get h self of
        Some (DimensionObject d) \<Rightarrow>
          (if \<not> older self d then Inl RecursionError
           else if isinstance_int v \<or> isinstance_str v then py_eq h d v
           else if isinstance_DimensionObject h v then py_eq h v d
           else if isinstance_ShapeOperator h v then
             (case evaluate h Map.empty (addr_of v) of
                Inl e \<Rightarrow> Inl e
              | Inr ve \<Rightarrow> py_eq h (pyval_of ve) d)
           else if v = PyNone then Inr (d = PyNone)
           else Inl TypeError)
      | _ \<Rightarrow> Inl AttributeError)"
| "py_eq h v w =
     (if isinstance_DimensionObject h v then DimensionObject_eq h (addr_of v) w
      else if isinstance_DimensionObject h w then DimensionObject_eq h (addr_of w) v
      else Inr (v = w))"
  by pat_completeness auto

termination
  apply (relation "measure (\<lambda>x. case x of
            Inl (h, self, v) \<Rightarrow> 2 * (Suc self + sz v)
          | Inr (h, v, w) \<Rightarrow> 2 * (sz v + sz w) + 1)")
       apply simp
  subgoal for h self v ob d by (cases d) auto
  subgoal for h self v ob d by (cases d; cases v) auto
  subgoal for h self v ob d ve by (cases d; cases ve) auto
  subgoal for h v w by (cases v) auto
  subgoal for h v w by (cases w) auto
  done

declare DimensionObject_eq.simps [simp del] py_eq.simps [simp del]

text \<open>The field \<^verbatim>\<open>_dim\<close> of a value that is a dimension object.\<close>

definition dim_of :: "heap \<Rightarrow> pyval \<Rightarrow> pyval" where
  "dim_of h v = (case heap_get h (addr_of v) of Some (DimensionObject d) \<Rightarrow> d | _ \<Rightarrow> PyNone)"

fun int_of :: "pyval \<Rightarrow> int" where
  "int_of (PyInt i) = i"
| "int_of v = 0"

text \<open>
  \<^verbatim>\<open>DimensionObject.__gt__\<close>. Reading \<^verbatim>\<open>obj._dim\<close> from a value that is neither
  \<^verbatim>\<open>None\<close> nor a dimension object raises \<^verbatim>\<open>AttributeError\<close>.
\<close>

definition DimensionObject_gt :: "heap \<Rightarrow> nat \<Rightarrow> pyval \<Rightarrow> error + bool" where
  "DimensionObject_gt h self obj =
     (case heap_get h self of
        Some (DimensionObject sd) \<Rightarrow>
          (if obj = PyNone then Inr (\<not> isinstance_int sd)
           else if \<not> isinstance_DimensionObject h obj then Inl AttributeError
           else
             (let od = dim_of h obj in
              if isinstance_int sd \<and> isinstance_int od then Inr (int_of sd > int_of od)
              else if isinstance_int sd \<and> od = PyNone then Inr False
              else if sd = PyNone \<and> isinstance_int od then Inr True
              else if isinstance_int sd \<and> isinstance_str od then Inr False
              else if isinstance_str sd \<and> isinstance_int od then Inr True
              else
                (case py_eq h sd od of
                   Inl e \<Rightarrow> Inl e
                 | Inr True \<Rightarrow> Inr False
                 | Inr False \<Rightarrow>
                     (case evaluate h Map.empty self of
                        Inl e \<Rightarrow> Inl e
                      | Inr ev1 \<Rightarrow>
                          (case evaluate h Map.empty (addr_of obj) of
                             Inl e \<Rightarrow> Inl e
                           | Inr ev2 \<Rightarrow>
                               (if ev1 = ev2 then Inr False
                                else
                                  (case (ev1, ev2) of
                                     (VInt i1, VInt i2) \<Rightarrow> Inr (i1 > i2)
                                   | _ \<Rightarrow> Inl RuntimeError)))))))
      | _ \<Rightarrow> Inl AttributeError)"

section \<open>Building dimensions\<close>

text \<open>
  \<^verbatim>\<open>DimensionObject.__init__\<close>: the new object is allocated at the end of the store and
  its address returned. The test \<^verbatim>\<open>obj is None or obj == 0 or obj == '?'\<close> runs
  Python's \<^verbatim>\<open>==\<close>, hence \<^verbatim>\<open>__eq__\<close> when \<^verbatim>\<open>obj\<close> is a dimension object.
\<close>

definition DimensionObject_init :: "heap \<Rightarrow> pyval \<Rightarrow> error + (heap \<times> nat)" where
  "DimensionObject_init h obj =
     (if obj = PyNone then Inr (alloc h (DimensionObject PyNone))
      else
        (case py_eq h obj (PyInt 0) of
           Inl e \<Rightarrow> Inl e
         | Inr True \<Rightarrow> Inr (alloc h (DimensionObject PyNone))
         | Inr False \<Rightarrow>
             (case py_eq h obj (PyStr ''?'') of
                Inl e \<Rightarrow> Inl e
              | Inr True \<Rightarrow> Inr (alloc h (DimensionObject PyNone))
              | Inr False \<Rightarrow>
                  (if isinstance_int obj \<or> isinstance_str obj
                      \<or> isinstance_ShapeOperator h obj \<or> isinstance_DimensionObject h obj
                   then Inr (alloc h (DimensionObject obj))
                   else Inl TypeError))))"

text \<open>\<^verbatim>\<open>DimensionObject._same_\<close>.\<close>

definition DimensionObject_same :: "heap \<Rightarrow> pyval \<Rightarrow> error + (heap \<times> nat)" where
  "DimensionObject_same h obj =
     (if isinstance_DimensionObject h obj then Inr (h, addr_of obj)
      else DimensionObject_init h obj)"

text \<open>
  \<^verbatim>\<open>ShapeOperator.__init__\<close> through \<^verbatim>\<open>ShapeBinaryOperator.__init__\<close>: every argument
  must be a dimension object.
\<close>

definition ShapeOperator_init :: "heap \<Rightarrow> opkind \<Rightarrow> pyval \<Rightarrow> pyval \<Rightarrow> error + (heap \<times> nat)" where
  "ShapeOperator_init h k x y =
     (if isinstance_DimensionObject h x \<and> isinstance_DimensionObject h y
      then Inr (alloc h (ShapeOperator k (addr_of x) (addr_of y)))
      else Inl TypeError)"

text \<open>
  \<^verbatim>\<open>DimensionObject.__add__\<close> and \<^verbatim>\<open>DimensionObject.__mul__\<close> differ in the operator
  class only: \<^verbatim>\<open>DimensionObject(ShapeOperatorAdd(self, DimensionObject._same_(obj)))\<close>.
\<close>

definition DimensionObject_binop :: "opkind \<Rightarrow> heap \<Rightarrow> nat \<Rightarrow> pyval \<Rightarrow> error + (heap \<times> nat)" where
  "DimensionObject_binop k h self obj =
     (case DimensionObject_same h obj of
        Inl e \<Rightarrow> Inl e
      | Inr (h1, b) \<Rightarrow>
          (case ShapeOperator_init h1 k (PyRef self) (PyRef b) of
             Inl e \<Rightarrow> Inl e
           | Inr (h2, node) \<Rightarrow> DimensionObject_init h2 (PyRef node)))"

definition DimensionObject_add :: "heap \<Rightarrow> nat \<Rightarrow> pyval \<Rightarrow> error + (heap \<times> nat)" where
  "DimensionObject_add = DimensionObject_binop ShapeOperatorAdd"

definition DimensionObject_mul :: "heap \<Rightarrow> nat \<Rightarrow> pyval \<Rightarrow> error + (heap \<times> nat)" where
  "DimensionObject_mul = DimensionObject_binop ShapeOperatorMul"

section \<open>Shapes\<close>

text \<open>
  A \<^verbatim>\<open>ShapeObject\<close> has the fields \<^verbatim>\<open>name\<close>, \<^verbatim>\<open>_shape\<close> (a list, or \<^verbatim>\<open>None\<close> when
  the shape is unknown) and \<^verbatim>\<open>_dtype\<close>. The list holds references to dimension
  objects, and whatever value \<^verbatim>\<open>__setitem__\<close> or \<^verbatim>\<open>transpose\<close> stored in it. A method that
  changes the list returns the updated shape.
\<close>

record ShapeObject =
  name :: "string option"
  shape :: "pyval list option"
  dtype :: "string option"

text \<open>
  The argument \<^verbatim>\<open>shape\<close> of the constructor: a numpy array (its \<^verbatim>\<open>shape\<close> and its
  \<^verbatim>\<open>dtype\<close>), a dictionary \<^verbatim>\<open>{'type': {'kind': .., 'shape': .., 'elem': ..}}\<close>, a tuple
  or a list, \<^verbatim>\<open>None\<close>, or anything else.
\<close>

datatype shape_input =
    NdArray "nat list" string
  | TypeDict string "pyval list" "string option"
  | Sequence "pyval list"
  | NoneShape
  | OtherShape

text \<open>\<^verbatim>\<open>[DimensionObject(s) for s in ...]\<close>, from left to right.\<close>

fun DimensionObject_list :: "heap \<Rightarrow> pyval list \<Rightarrow> error + (heap \<times> pyval list)" where
  "DimensionObject_list h [] = Inr (h, [])"
| "DimensionObject_list h (s # ss) =
     (case DimensionObject_init h s of
        Inl e \<Rightarrow> Inl e
      | Inr (h1, a) \<Rightarrow>
          (case DimensionObject_list h1 ss of
             Inl e \<Rightarrow> Inl e
           | Inr (h2, ds) \<Rightarrow> Inr (h2, PyRef a # ds)))"

text \<open>The first part of \<^verbatim>\<open>ShapeObject.__init__\<close>, which sets \<^verbatim>\<open>_shape\<close> and \<^verbatim>\<open>_dtype\<close>.\<close>

definition ShapeObject_fields ::
  "heap \<Rightarrow> shape_input \<Rightarrow> string option \<Rightarrow> error + (heap \<times> pyval list option \<times> string option)" where
  "ShapeObject_fields h sh dt =
     (case sh of
        NdArray dims adt \<Rightarrow>
          (case DimensionObject_list h (map (\<lambda>n. PyInt (int n)) dims) of
             Inl e \<Rightarrow> Inl e
           | Inr (h1, ds) \<Rightarrow> Inr (h1, Some ds, Some adt))
      | TypeDict kind tshape elem \<Rightarrow>
          (if kind = ''tensor'' then
             (case (case tshape of [x] \<Rightarrow> py_eq h x (PyStr ''?'') | _ \<Rightarrow> Inr False) of
                Inl e \<Rightarrow> Inl e
              | Inr True \<Rightarrow> Inr (h, None, elem)
              | Inr False \<Rightarrow>
                  (case DimensionObject_list h tshape of
                     Inl e \<Rightarrow> Inl e
                   | Inr (h1, ds) \<Rightarrow> Inr (h1, Some ds, elem)))
           else if kind = ''map'' then Inr (h, Some [], Some ''map'')
           else Inl ValueError)
      | Sequence xs \<Rightarrow>
          (case DimensionObject_list h xs of
             Inl e \<Rightarrow> Inl e
           | Inr (h1, ds) \<Rightarrow> Inr (h1, Some ds, dt))
      | NoneShape \<Rightarrow> Inr (h, None, dt)
      | OtherShape \<Rightarrow> Inl TypeError)"

text \<open>
  The option \<^verbatim>\<open>use_n1\<close>: when the first dimension is unknown its \<^verbatim>\<open>_dim\<close> becomes
  \<^verbatim>\<open>'n'\<close>, the one assignment to a dimension object after its construction.
\<close>

definition use_n1_update :: "heap \<Rightarrow> pyval list \<Rightarrow> heap" where
  "use_n1_update h ds =
     (case ds of
        [] \<Rightarrow> h
      | sh # rest \<Rightarrow>
          (if isinstance_DimensionObject h sh \<and> dim_of h sh = PyNone
           then h[addr_of sh := DimensionObject (PyStr ''n'')]
           else h))"

text \<open>\<^verbatim>\<open>ShapeObject.__init__(shape, dtype, use_n1, name)\<close>.\<close>

definition ShapeObject_init ::
  "heap \<Rightarrow> shape_input \<Rightarrow> string option \<Rightarrow> bool \<Rightarrow> string option \<Rightarrow> error + (heap \<times> ShapeObject)" where
  "ShapeObject_init h sh dt use_n1 nm =
     (case ShapeObject_fields h sh dt of
        Inl e \<Rightarrow> Inl e
      | Inr (h1, shp, dt1) \<Rightarrow>
          (if dt1 = None then Inl ValueError
           else
             (case shp of
                None \<Rightarrow> Inr (h1, \<lparr>name = nm, shape = None, dtype = dt1\<rparr>)
              | Some ds \<Rightarrow>
                  (if \<not> list_all (isinstance_DimensionObject h1) ds then Inl TypeError
                   else Inr (if use_n1 then use_n1_update h1 ds else h1,
                             \<lparr>name = nm, shape = Some ds, dtype = dt1\<rparr>)))))"

text \<open>\<^verbatim>\<open>name or self.name\<close>: \<^verbatim>\<open>None\<close> and the empty string are false.\<close>

definition name_or :: "string option \<Rightarrow> string option \<Rightarrow> string option" where
  "name_or n m = (if n = None \<or> n = Some [] then m else n)"

text \<open>\<^verbatim>\<open>"{}-RD".format(self.name)\<close> and the like.\<close>

definition format_name :: "string option \<Rightarrow> string \<Rightarrow> string" where
  "format_name n suffix = (case n of None \<Rightarrow> ''None'' | Some s \<Rightarrow> s) @ suffix"

text \<open>\<^verbatim>\<open>ShapeObject.copy(dtype, name)\<close>.\<close>

definition ShapeObject_copy ::
  "heap \<Rightarrow> ShapeObject \<Rightarrow> string option \<Rightarrow> string option \<Rightarrow> error + (heap \<times> ShapeObject)" where
  "ShapeObject_copy h self dt nm =
     (case shape self of
        None \<Rightarrow> ShapeObject_init h NoneShape (dtype self) False (name_or nm (name self))
      | Some ds \<Rightarrow>
          ShapeObject_init h (Sequence ds) (if dt = None then dtype self else dt) False
            (name_or nm (name self)))"

text \<open>
  The position a Python index denotes in a list: a negative index counts from the end,
  and there is none (\<^verbatim>\<open>IndexError\<close>) outside \<open>- length xs \<le> i < length xs\<close>.
\<close>

definition py_index :: "'a list \<Rightarrow> int \<Rightarrow> nat option" where
  "py_index xs i =
     (let n = int (length xs)
      in if 0 \<le> i \<and> i < n then Some (nat i)
         else if - n \<le> i \<and> i < 0 then Some (nat (n + i))
         else None)"

text \<open>\<^verbatim>\<open>ShapeObject.__getitem__\<close>.\<close>

definition ShapeObject_getitem :: "ShapeObject \<Rightarrow> int \<Rightarrow> error + pyval" where
  "ShapeObject_getitem self index =
     (case shape self of
        None \<Rightarrow> Inr PyNone
      | Some ds \<Rightarrow>
          (if index \<ge> int (length ds) then Inr (PyInt 1)
           else (case py_index ds index of
                   None \<Rightarrow> Inl IndexError
                 | Some k \<Rightarrow> Inr (ds ! k))))"

text \<open>
  The loop of \<^verbatim>\<open>__setitem__\<close>:
  \<^verbatim>\<open>while len(self._shape) <= index: self._shape.append(DimensionObject(1))\<close>.
\<close>

function pad_shape :: "heap \<Rightarrow> pyval list \<Rightarrow> int \<Rightarrow> error + (heap \<times> pyval list)" where
  "pad_shape h ds index =
     (if int (length ds) \<le> index then
        (case DimensionObject_init h (PyInt 1) of
           Inl e \<Rightarrow> Inl e
         | Inr (h1, a) \<Rightarrow> pad_shape h1 (ds @ [PyRef a]) index)
      else Inr (h, ds))"
  by pat_completeness auto
termination
  by (relation "measure (\<lambda>(h, ds, index). nat (index + 1 - int (length ds)))") auto

declare pad_shape.simps [simp del]

text \<open>\<^verbatim>\<open>ShapeObject.__setitem__\<close>.\<close>

definition ShapeObject_setitem ::
  "heap \<Rightarrow> ShapeObject \<Rightarrow> int \<Rightarrow> pyval \<Rightarrow> error + (heap \<times> ShapeObject)" where
  "ShapeObject_setitem h self index v =
     (case shape self of
        None \<Rightarrow> Inr (h, self)
      | Some ds \<Rightarrow>
          (case pad_shape h ds index of
             Inl e \<Rightarrow> Inl e
           | Inr (h1, ds1) \<Rightarrow>
               (case py_index ds1 index of
                  None \<Rightarrow> Inl IndexError
                | Some k \<Rightarrow> Inr (h1, self\<lparr>shape := Some (ds1[k := v])\<rparr>))))"

text \<open>\<^verbatim>\<open>ShapeObject.__len__\<close>.\<close>

definition ShapeObject_len :: "ShapeObject \<Rightarrow> nat" where
  "ShapeObject_len self = (case shape self of None \<Rightarrow> 0 | Some ds \<Rightarrow> length ds)"

text \<open>\<^verbatim>\<open>del xs[i]\<close>.\<close>

definition py_del :: "'a list \<Rightarrow> int \<Rightarrow> error + 'a list" where
  "py_del xs i =
     (case py_index xs i of
        None \<Rightarrow> Inl IndexError
      | Some k \<Rightarrow> Inr (take k xs @ drop (Suc k) xs))"

text \<open>\<^verbatim>\<open>ShapeObject.reduce(axis, keepdims, dtype)\<close>.\<close>

definition ShapeObject_reduce ::
  "heap \<Rightarrow> ShapeObject \<Rightarrow> int \<Rightarrow> bool \<Rightarrow> string option \<Rightarrow> error + (heap \<times> ShapeObject)" where
  "ShapeObject_reduce h self axis keepdims dt =
     (case shape self of
        None \<Rightarrow>
          (if name self = None then ShapeObject_copy h self None None
           else ShapeObject_copy h self None (Some (format_name (name self) ''-RD'')))
      | Some ds \<Rightarrow>
          (if 0 \<le> axis \<and> axis < int (length ds) then
             (if keepdims then
                (case DimensionObject_init h (PyInt 1) of
                   Inl e \<Rightarrow> Inl e
                 | Inr (h1, a) \<Rightarrow>
                     ShapeObject_init h1 (Sequence (ds[nat axis := PyRef a]))
                       (if dt = None then dtype self else dt) False
                       (Some (format_name (name self) ''-RD'')))
              else
                (case py_del ds axis of
                   Inl e \<Rightarrow> Inl e
                 | Inr cp \<Rightarrow>
                     ShapeObject_init h (Sequence cp)
                       (if dt = None then dtype self else dt) False
                       (Some (format_name (name self) ''-RD''))))
           else Inl IndexError))"

text \<open>
  The loop of \<^verbatim>\<open>ShapeObject.__eq__\<close> over \<^verbatim>\<open>zip(self, a)\<close>: it returns \<^verbatim>\<open>False\<close> at
  the first pair that \<^verbatim>\<open>==\<close> finds different and does not look at the pairs after it.
\<close>

fun eq_dims :: "heap \<Rightarrow> pyval list \<Rightarrow> pyval list \<Rightarrow> error + bool" where
  "eq_dims h (d1 # r1) (d2 # r2) =
     (case py_eq h d1 d2 of
        Inl e \<Rightarrow> Inl e
      | Inr True \<Rightarrow> eq_dims h r1 r2
      | Inr False \<Rightarrow> Inr False)"
| "eq_dims h r1 r2 = Inr True"

text \<open>The right operand of \<^verbatim>\<open>ShapeObject.__eq__\<close>: a shape, or a tuple to convert.\<close>

datatype shape_operand = Shape ShapeObject | Tuple "pyval list"

text \<open>
  \<^verbatim>\<open>ShapeObject.__eq__\<close>. The shape built from a tuple is dropped after the comparison,
  so the store is not returned.
\<close>

definition ShapeObject_eq :: "heap \<Rightarrow> ShapeObject \<Rightarrow> shape_operand \<Rightarrow> error + bool" where
  "ShapeObject_eq h self a =
     (case (case a of
              Shape b \<Rightarrow> Inr (h, b)
            | Tuple xs \<Rightarrow> ShapeObject_init h (Sequence xs) (dtype self) False None) of
        Inl e \<Rightarrow> Inl e
      | Inr (h1, b) \<Rightarrow>
          (if shape self = None \<and> shape b = None then Inr True
           else if shape self = None \<or> shape b = None then Inr False
           else if ShapeObject_len self \<noteq> ShapeObject_len b then Inr False
           else eq_dims h1 (the (shape self)) (the (shape b))))"

text \<open>
  The loop of \<^verbatim>\<open>ShapeObject.evaluate\<close>: \<^verbatim>\<open>v.evaluate(**kwargs)\<close> for every element.
  An element that is not an object of the store has no method \<^verbatim>\<open>evaluate\<close>.
\<close>

fun evaluate_dims :: "heap \<Rightarrow> (string \<rightharpoonup> val) \<Rightarrow> pyval list \<Rightarrow> error + val list" where
  "evaluate_dims h kwargs [] = Inr []"
| "evaluate_dims h kwargs (v # vs) =
     (case (if isinstance_DimensionObject h v \<or> isinstance_ShapeOperator h v
            then evaluate h kwargs (addr_of v) else Inl AttributeError) of
        Inl e \<Rightarrow> Inl e
      | Inr d \<Rightarrow>
          (case evaluate_dims h kwargs vs of
             Inl e \<Rightarrow> Inl e
           | Inr ds \<Rightarrow> Inr (d # ds)))"

text \<open>
  \<^verbatim>\<open>ShapeObject.evaluate(self, **kwargs)\<close>, which refuses a binding of \<^verbatim>\<open>self\<close> like
  the other two; iterating over an unknown shape yields nothing.
\<close>

definition ShapeObject_evaluate ::
  "heap \<Rightarrow> ShapeObject \<Rightarrow> (string \<rightharpoonup> val) \<Rightarrow> error + (heap \<times> ShapeObject)" where
  "ShapeObject_evaluate h self kwargs =
     (if kwargs ''self'' \<noteq> None then Inl TypeError
      else
        (case evaluate_dims h kwargs (case shape self of None \<Rightarrow> [] | Some ds \<Rightarrow> ds) of
           Inl e \<Rightarrow> Inl e
         | Inr vs \<Rightarrow>
             ShapeObject_init h (Sequence (map pyval_of vs)) (dtype self) False
               (Some (format_name (name self) ''-EV''))))"

text \<open>The argument \<^verbatim>\<open>axis\<close> of \<^verbatim>\<open>drop_axis\<close>: an integer, or a tuple or list of integers.\<close>

datatype axis_input = Axis int | Axes "int list"

fun del_all :: "'a list \<Rightarrow> int list \<Rightarrow> error + 'a list" where
  "del_all xs [] = Inr xs"
| "del_all xs (i # rest) =
     (case py_del xs i of
        Inl e \<Rightarrow> Inl e
      | Inr ys \<Rightarrow> del_all ys rest)"

text \<open>\<^verbatim>\<open>ShapeObject.drop_axis\<close>; \<^verbatim>\<open>sorted(axis, reverse=True)\<close> is the sorted list reversed.\<close>

definition ShapeObject_drop_axis :: "ShapeObject \<Rightarrow> axis_input \<Rightarrow> error + ShapeObject" where
  "ShapeObject_drop_axis self axis =
     (case shape self of
        None \<Rightarrow> Inr self
      | Some ds \<Rightarrow>
          (case (case axis of
                   Axes xs \<Rightarrow> del_all ds (rev (sort xs))
                 | Axis i \<Rightarrow> py_del ds i) of
             Inl e \<Rightarrow> Inl e
           | Inr ds1 \<Rightarrow> Inr (self\<lparr>shape := Some ds1\<rparr>)))"

text \<open>\<^verbatim>\<open>ShapeObject.squeeze\<close>.\<close>

definition ShapeObject_squeeze ::
  "heap \<Rightarrow> ShapeObject \<Rightarrow> axis_input \<Rightarrow> error + (heap \<times> ShapeObject)" where
  "ShapeObject_squeeze h self axis =
     (case ShapeObject_copy h self None (Some (format_name (name self) ''-SZ'')) of
        Inl e \<Rightarrow> Inl e
      | Inr (h1, cp) \<Rightarrow>
          (case ShapeObject_drop_axis cp axis of
             Inl e \<Rightarrow> Inl e
           | Inr cp1 \<Rightarrow> Inr (h1, cp1)))"

text \<open>
  The loop of \<^verbatim>\<open>transpose\<close>: position \<open>i\<close> of the new list receives \<^verbatim>\<open>None\<close> when
  \<^verbatim>\<open>p >= len(self)\<close> and \<^verbatim>\<open>self._shape[p]\<close> otherwise.
\<close>

fun transpose_dims :: "pyval list \<Rightarrow> int list \<Rightarrow> error + pyval list" where
  "transpose_dims ds [] = Inr []"
| "transpose_dims ds (p # ps) =
     (case (if p \<ge> int (length ds) then Inr PyNone
            else (case py_index ds p of None \<Rightarrow> Inl IndexError | Some k \<Rightarrow> Inr (ds ! k))) of
        Inl e \<Rightarrow> Inl e
      | Inr d \<Rightarrow>
          (case transpose_dims ds ps of
             Inl e \<Rightarrow> Inl e
           | Inr rest \<Rightarrow> Inr (d # rest)))"

text \<open>\<^verbatim>\<open>ShapeObject.transpose(perm)\<close>.\<close>

definition ShapeObject_transpose ::
  "heap \<Rightarrow> ShapeObject \<Rightarrow> int list \<Rightarrow> error + (heap \<times> ShapeObject)" where
  "ShapeObject_transpose h self perm =
     (case shape self of
        None \<Rightarrow> ShapeObject_copy h self None (Some (format_name (name self) ''-TR''))
      | Some ds \<Rightarrow>
          (case ShapeObject_init h (Sequence (map (\<lambda>p. PyNone) perm)) (dtype self) False
                  (Some (format_name (name self) ''-TR'')) of
             Inl e \<Rightarrow> Inl e
           | Inr (h1, cp) \<Rightarrow>
               (case transpose_dims ds perm of
                  Inl e \<Rightarrow> Inl e
                | Inr ds1 \<Rightarrow> Inr (h1, cp\<lparr>shape := Some ds1\<rparr>))))"

section \<open>The kernel LabelEncoder\<close>

text \<open>
  \<^verbatim>\<open>mlprodict/onnxrt/ops_cpu/op_label_encoder.py\<close>. The base class \<^verbatim>\<open>OpRun\<close> (module
  \<^verbatim>\<open>_op\<close>) gives the kernel one field for each entry of \<^verbatim>\<open>atts\<close>, with the value of the
  node or else the default of \<^verbatim>\<open>atts\<close>; the record below is the kernel after that
  step. Floating-point numbers are taken as reals. A text is a \<^verbatim>\<open>str\<close> or a \<^verbatim>\<open>bytes\<close>,
  and Python never finds a \<^verbatim>\<open>str\<close> equal to a \<^verbatim>\<open>bytes\<close>.
\<close>

datatype pytext = Str string | Bytes string



text \<open>
  An element of an input array, and a one-dimensional array of a given \<^verbatim>\<open>dtype\<close>: of
  floats, of integers, of \<^verbatim>\<open>str\<close> or of \<^verbatim>\<open>bytes\<close>.
\<close>

datatype scalar = Float real | Int64 int | Text pytext

datatype ndarray =
    FloatArray "real list" | Int64Array "int list" | StrArray "string list"
  | BytesArray "string list"

fun elements :: "ndarray \<Rightarrow> scalar list" where
  "elements (FloatArray xs) = map Float xs"
| "elements (Int64Array xs) = map Int64 xs"
| "elements (StrArray xs) = map (\<lambda>x. Text (Str x)) xs"
| "elements (BytesArray xs) = map (\<lambda>x. Text (Bytes x)) xs"

text \<open>
  Whether a key of the table equals an element: numbers compare by value, whatever
  their type, a text equals no number, and two texts are equal when they are both
  \<^verbatim>\<open>str\<close> or both \<^verbatim>\<open>bytes\<close> with the same characters.
\<close>

fun float_key :: "real \<Rightarrow> scalar \<Rightarrow> bool" where
  "float_key k (Float r) = (k = r)"
| "float_key k (Int64 i) = (k = of_int i)"
| "float_key k (Text t) = False"

fun int64_key :: "int \<Rightarrow> scalar \<Rightarrow> bool" where
  "int64_key k (Float r) = (of_int k = r)"
| "int64_key k (Int64 i) = (k = i)"
| "int64_key k (Text t) = False"

fun text_key :: "pytext \<Rightarrow> scalar \<Rightarrow> bool" where
  "text_key k (Text t) = (k = t)"
| "text_key k v = False"

text \<open>
  \<^verbatim>\<open>{k: v for k, v in zip(keys, values)}.get(x, default)\<close>: in the dictionary a later
  pair replaces an earlier one with an equal key, so the value found is the one of the
  last pair whose key equals \<open>x\<close>.
\<close>

definition dict_get :: "('k \<times> 'v) list \<Rightarrow> ('k \<Rightarrow> bool) \<Rightarrow> 'v \<Rightarrow> 'v" where
  "dict_get pairs is_x dflt =
     (case filter (\<lambda>(k, v). is_x k) pairs of [] \<Rightarrow> dflt | p # ps \<Rightarrow> snd (last (p # ps)))"

text \<open>
  The kernel after \<^verbatim>\<open>__init__\<close>: \<^verbatim>\<open>classes_\<close> and \<^verbatim>\<open>default_\<close>, of the type that
  \<^verbatim>\<open>dtype_\<close> names (\<^verbatim>\<open>numpy.float32\<close>, \<^verbatim>\<open>numpy.int64\<close> or \<^verbatim>\<open>numpy.str\<close>).
\<close>

datatype LabelEncoder =
    FloatEncoder "(real \<times> real) list" real
  | Int64Encoder "(int \<times> int) list" int
  | StrEncoder "(pytext \<times> pytext) list" pytext


text \<open>
  \<^verbatim>\<open>res[i] = v\<close> for an array \<^verbatim>\<open>res\<close> made by \<^verbatim>\<open>numpy.empty((n, ), dtype=numpy.str)\<close>.
  That array holds strings of one character: numpy decodes a \<^verbatim>\<open>bytes\<close> as ASCII,
  which raises \<^verbatim>\<open>UnicodeDecodeError\<close> (a \<^verbatim>\<open>ValueError\<close>) on a byte above 127, and cuts
  what it stores to the first character.
\<close>

fun chars :: "pytext \<Rightarrow> string" where
  "chars (Str s) = s"
| "chars (Bytes b) = b"

fun decodable :: "pytext \<Rightarrow> bool" where
  "decodable (Str s) = True"
| "decodable (Bytes b) = list_all (\<lambda>c. of_char c < (128 :: nat)) b"

definition store_str :: "pytext \<Rightarrow> error + string" where
  "store_str t = (if decodable t then Inr (take 1 (chars t)) else Inl ValueError)"

text \<open>The assignments of a loop, from left to right: the first error ends it.\<close>

fun collect :: "(error + 'a) list \<Rightarrow> error + 'a list" where
  "collect [] = Inr []"
| "collect (r # rs) =
     (case r of
        Inl e \<Rightarrow> Inl e
      | Inr v \<Rightarrow> (case collect rs of Inl e \<Rightarrow> Inl e | Inr vs \<Rightarrow> Inr (v # vs)))"

text \<open>
  \<^verbatim>\<open>LabelEncoder._run\<close> on a one-dimensional array; the result is the one element of
  the tuple returned, an array of \<^verbatim>\<open>dtype_\<close>.
\<close>

fun LabelEncoder_run :: "LabelEncoder \<Rightarrow> ndarray \<Rightarrow> error + ndarray" where
  "LabelEncoder_run (FloatEncoder classes dflt) x =
     Inr (FloatArray (map (\<lambda>xi. dict_get classes (\<lambda>k. float_key k xi) dflt) (elements x)))"
| "LabelEncoder_run (Int64Encoder classes dflt) x =
     Inr (Int64Array (map (\<lambda>xi. dict_get classes (\<lambda>k. int64_key k xi) dflt) (elements x)))"
| "LabelEncoder_run (StrEncoder classes dflt) x =
     (case collect (map (\<lambda>xi. store_str (dict_get classes (\<lambda>k. text_key k xi) dflt))
                     (elements x)) of
        Inl e \<Rightarrow> Inl e
      | Inr res \<Rightarrow> Inr (StrArray res))"

section \<open>The kernel LinearRegressor\<close>

text \<open>
  \<^verbatim>\<open>mlprodict/onnxrt/ops_cpu/op_linear_regressor.py\<close>. The fields come from the node
  and from \<^verbatim>\<open>atts\<close> as above. \<^verbatim>\<open>coefficients\<close> is \<open>None\<close> when the attribute is not
  a numpy array, and a flat array otherwise.
\<close>

record LinearRegressor_atts =
  coefficients :: "real list option"
  intercepts :: "real list option"
  targets :: int
  post_transform :: string

text \<open>
  The kernel after \<^verbatim>\<open>__init__\<close>. \<open>weights\<close> is the array
  \<^verbatim>\<open>coefficients.reshape(targets, n)\<close>, one row of length \<open>n\<close> for each target; the
  field \<^verbatim>\<open>coefficients\<close> of the kernel is its transpose, of shape \<open>(n, targets)\<close>.
\<close>

record LinearRegressor =
  weights :: "real list list"
  bias :: "real list option"
  transform :: string

definition reshape :: "nat \<Rightarrow> nat \<Rightarrow> real list \<Rightarrow> real list list" where
  "reshape rows cols xs = map (\<lambda>t. take cols (drop (t * cols) xs)) [0..<rows]"

text \<open>
  \<^verbatim>\<open>LinearRegressor.__init__\<close>: \<^verbatim>\<open>n = coefficients.shape[0] // targets\<close> divides by
  zero when \<^verbatim>\<open>targets\<close> is 0, and \<^verbatim>\<open>reshape\<close> raises \<^verbatim>\<open>ValueError\<close> when
  \<^verbatim>\<open>targets\<close> is negative or \<^verbatim>\<open>targets * n\<close> is not the size of the array.
\<close>

definition LinearRegressor_init :: "LinearRegressor_atts \<Rightarrow> error + LinearRegressor" where
  "LinearRegressor_init atts =
     (case coefficients atts of
        None \<Rightarrow> Inl TypeError
      | Some cs \<Rightarrow>
          (if targets atts = 0 then Inl ZeroDivisionError
           else
             (let n = int (length cs) div targets atts
              in if targets atts < 0 then Inl ValueError
                 else if targets atts * n = int (length cs) then
                   Inr \<lparr>weights = reshape (nat (targets atts)) (nat n) cs,
                        bias = intercepts atts,
                        transform = post_transform atts\<rparr>
                 else Inl ValueError)))"

text \<open>
  The input of \<^verbatim>\<open>_run\<close>: a vector, or a matrix given by its number of columns and its
  rows, each of that length. The number of columns belongs to the shape of the matrix
  also when it has no row.
\<close>

datatype tensor = Vector "real list" | Matrix nat "real list list"

text \<open>
  \<^verbatim>\<open>numpy.dot(x, M)\<close> for a vector \<open>x\<close> and the transpose \<open>M\<close> of \<open>w\<close>: it needs as
  many elements in \<open>x\<close> as rows in \<open>M\<close>, and gives one sum of products for each target.
\<close>

definition dot_vector :: "real list \<Rightarrow> real list list \<Rightarrow> error + real list" where
  "dot_vector x w =
     (if list_all (\<lambda>row. length row = length x) w
      then Inr (map (\<lambda>row. sum_list (map2 (*) x row)) w)
      else Inl ValueError)"

text \<open>
  \<^verbatim>\<open>numpy.dot(x, M)\<close> for a matrix \<open>x\<close> of \<open>c\<close> columns: it needs \<open>c\<close> rows in \<open>M\<close>,
  whatever the number of rows of \<open>x\<close>, and multiplies each row of \<open>x\<close>.
\<close>

definition dot_matrix :: "nat \<Rightarrow> real list list \<Rightarrow> real list list \<Rightarrow> error + real list list" where
  "dot_matrix c rows w =
     (if list_all (\<lambda>row. length row = c) w \<and> list_all (\<lambda>x. length x = c) rows
      then Inr (map (\<lambda>x. map (\<lambda>row. sum_list (map2 (*) x row)) w) rows)
      else Inl ValueError)"

text \<open>
  \<^verbatim>\<open>score += intercepts\<close>: the intercepts are broadcast over the last axis of the
  score, of length \<open>t\<close>, which needs \<open>t\<close> of them, or one.
\<close>

definition add_intercepts :: "real list \<Rightarrow> real list \<Rightarrow> error + real list" where
  "add_intercepts score b =
     (if length b = length score then Inr (map2 (+) score b)
      else if length b = 1 then Inr (map (\<lambda>s. s + hd b) score)
      else Inl ValueError)"

definition add_intercepts_matrix ::
  "nat \<Rightarrow> real list list \<Rightarrow> real list \<Rightarrow> error + real list list" where
  "add_intercepts_matrix t score b =
     (if length b = t then Inr (map (\<lambda>s. map2 (+) s b) score)
      else if length b = 1 then Inr (map (map (\<lambda>s. s + hd b)) score)
      else Inl ValueError)"

text \<open>The first two statements of \<^verbatim>\<open>_run\<close>: the product and the intercepts.\<close>

definition LinearRegressor_score :: "LinearRegressor \<Rightarrow> tensor \<Rightarrow> error + tensor" where
  "LinearRegressor_score k x =
     (case x of
        Vector v \<Rightarrow>
          (case dot_vector v (weights k) of
             Inl e \<Rightarrow> Inl e
           | Inr score \<Rightarrow>
               (case bias k of
                  None \<Rightarrow> Inr (Vector score)
                | Some b \<Rightarrow>
                    (case add_intercepts score b of
                       Inl e \<Rightarrow> Inl e
                     | Inr r \<Rightarrow> Inr (Vector r))))
      | Matrix c rows \<Rightarrow>
          (case dot_matrix c rows (weights k) of
             Inl e \<Rightarrow> Inl e
           | Inr score \<Rightarrow>
               (case bias k of
                  None \<Rightarrow> Inr (Matrix (length (weights k)) score)
                | Some b \<Rightarrow>
                    (case add_intercepts_matrix (length (weights k)) score b of
                       Inl e \<Rightarrow> Inl e
                     | Inr r \<Rightarrow> Inr (Matrix (length (weights k)) r)))))"

text \<open>\<^verbatim>\<open>LinearRegressor._run\<close>; the result is the one element of the tuple returned.\<close>

definition LinearRegressor_run :: "LinearRegressor \<Rightarrow> tensor \<Rightarrow> error + tensor" where
  "LinearRegressor_run k x =
     (case LinearRegressor_score k x of
        Inl e \<Rightarrow> Inl e
      | Inr score \<Rightarrow>
          (if transform k = ''NONE'' then Inr score
           else Inl NotImplementedError))"

text \<open>
  When numpy accepts the shapes of the input, of the coefficients and of the
  intercepts: the words of the documentation of \<^verbatim>\<open>numpy.dot\<close> and of broadcasting, put
  as one test.
\<close>

definition shapes_agree :: "LinearRegressor \<Rightarrow> tensor \<Rightarrow> bool" where
  "shapes_agree k x =
     ((case x of
         Vector v \<Rightarrow> list_all (\<lambda>row. length row = length v) (weights k)
       | Matrix c rows \<Rightarrow>
           list_all (\<lambda>row. length row = c) (weights k) \<and> list_all (\<lambda>r. length r = c) rows)
      \<and> (case bias k of
           None \<Rightarrow> True
         | Some b \<Rightarrow> length b = length (weights k) \<or> length b = 1))"

section \<open>Facts about the store\<close>

lemma heap_get_append_old: "a < length h \<Longrightarrow> heap_get (h @ xs) a = heap_get h a"
  by (simp add: heap_get_def nth_append)

lemma heap_get_less: "heap_get h a = Some ob \<Longrightarrow> a < length h"
  by (simp add: heap_get_def split: if_splits)

lemma isinstance_DimensionObject_iff:
  "isinstance_DimensionObject h v \<longleftrightarrow>
     (\<exists>a d. v = PyRef a \<and> heap_get h a = Some (DimensionObject d))"
  by (cases v) (auto split: option.splits obj.splits)

lemma isinstance_ShapeOperator_iff:
  "isinstance_ShapeOperator h v \<longleftrightarrow>
     (\<exists>a k x y. v = PyRef a \<and> heap_get h a = Some (ShapeOperator k x y))"
  by (cases v) (auto split: option.splits obj.splits)

section \<open>The order on dimensions\<close>

text \<open>
  Claim C1, as the code has it. Let \<open>u\<close> be a dimension whose value is unknown and
  \<open>k\<close>, \<open>k'\<close> dimensions whose values are the integers \<open>n\<close> and \<open>m\<close>. Then \<^verbatim>\<open>u > k\<close> is
  true, \<^verbatim>\<open>k > u\<close> is false (a known integer is never greater than an unknown dimension),
  and \<^verbatim>\<open>k > k'\<close> is the comparison \<open>n > m\<close> of the integers.
\<close>

theorem gt_unknown_known:
  assumes "heap_get h u = Some (DimensionObject PyNone)"
    and "heap_get h k = Some (DimensionObject (PyInt n))"
    and "heap_get h k' = Some (DimensionObject (PyInt m))"
  shows "DimensionObject_gt h u (PyRef k) = Inr True
       \<and> DimensionObject_gt h k (PyRef u) = Inr False
       \<and> DimensionObject_gt h k (PyRef k') = Inr (n > m)"
  using assms by (simp add: DimensionObject_gt_def dim_of_def)

theorem gt_unknown_known_witness:
  "DimensionObject_gt [DimensionObject PyNone, DimensionObject (PyInt 3), DimensionObject (PyInt 5)]
       0 (PyRef 1) = Inr True
 \<and> DimensionObject_gt [DimensionObject PyNone, DimensionObject (PyInt 3), DimensionObject (PyInt 5)]
       1 (PyRef 0) = Inr False
 \<and> DimensionObject_gt [DimensionObject PyNone, DimensionObject (PyInt 3), DimensionObject (PyInt 5)]
       1 (PyRef 2) = Inr (3 > (5::int))"
  using gt_unknown_known
    [of "[DimensionObject PyNone, DimensionObject (PyInt 3), DimensionObject (PyInt 5)]" 0 1 3 2 5]
  by (simp add: heap_get_def)

text \<open>
  Claim C1 as the specification words it says that \<^verbatim>\<open>>\<close> never reports an unknown
  dimension greater than a known integer. With the unknown dimension at address 0 and
  the dimension 3 at address 1, \<^verbatim>\<open>DimensionObject(None) > DimensionObject(3)\<close> is true.
\<close>

theorem unknown_gt_known_counterexample:
  "DimensionObject_gt [DimensionObject PyNone, DimensionObject (PyInt 3)] 0 (PyRef 1) = Inr True"
  by (simp add: DimensionObject_gt_def dim_of_def heap_get_def)

section \<open>Equality of shapes\<close>

lemma eq_dims_first_difference:
  assumes "list_all2 (\<lambda>u v. py_eq h u v = Inr True) pre pre'"
    and "py_eq h x y = Inr False"
  shows "eq_dims h (pre @ x # post) (pre' @ y # post') = Inr False"
  using assms by (induction pre pre' rule: list_all2_induct) simp_all

text \<open>
  Claim C2. \<^verbatim>\<open>ShapeObject.__eq__\<close> on two shapes is false when exactly one of them is
  the unknown shape, false when both are known and their ranks differ, true when both are
  the unknown shape, and, for two known shapes of the same rank, false as soon as a pair
  of dimensions compares unequal after pairs that all compare equal: whatever comes
  after that pair is not compared.
\<close>

theorem ShapeObject_eq_cases:
  "(shape s = None \<and> shape b \<noteq> None \<longrightarrow> ShapeObject_eq h s (Shape b) = Inr False)
 \<and> (shape s \<noteq> None \<and> shape b = None \<longrightarrow> ShapeObject_eq h s (Shape b) = Inr False)
 \<and> (shape s = Some ds \<and> shape b = Some es \<and> length ds \<noteq> length es
      \<longrightarrow> ShapeObject_eq h s (Shape b) = Inr False)
 \<and> (shape s = None \<and> shape b = None \<longrightarrow> ShapeObject_eq h s (Shape b) = Inr True)
 \<and> (shape s = Some (pre @ x # post) \<and> shape b = Some (pre' @ y # post')
      \<and> length post = length post'
      \<and> list_all2 (\<lambda>u v. py_eq h u v = Inr True) pre pre' \<and> py_eq h x y = Inr False
      \<longrightarrow> ShapeObject_eq h s (Shape b) = Inr False)"
proof -
  have "ShapeObject_eq h s (Shape b) = Inr False"
    if "shape s = Some (pre @ x # post)" "shape b = Some (pre' @ y # post')"
      "length post = length post'"
      "list_all2 (\<lambda>u v. py_eq h u v = Inr True) pre pre'" "py_eq h x y = Inr False"
  proof -
    have "length pre = length pre'"
      using that(4) by (rule list_all2_lengthD)
    then show ?thesis
      using that by (simp add: ShapeObject_eq_def ShapeObject_len_def eq_dims_first_difference)
  qed
  then show ?thesis
    by (auto simp: ShapeObject_eq_def ShapeObject_len_def)
qed

text \<open>
  In the last comparison of the witness the third pair, \<^verbatim>\<open>b'x'\<close> against a dimension
  object, would raise \<^verbatim>\<open>TypeError\<close>; the second pair, 3 against 4, ends the loop first.
\<close>

theorem ShapeObject_eq_cases_witness:
  "ShapeObject_eq [DimensionObject (PyInt 2), DimensionObject (PyInt 3), DimensionObject (PyInt 4)]
     \<lparr>name = None, shape = None, dtype = Some ''float32''\<rparr>
     (Shape \<lparr>name = None, shape = Some [PyRef 0, PyRef 1], dtype = Some ''float32''\<rparr>) = Inr False
 \<and> ShapeObject_eq [DimensionObject (PyInt 2), DimensionObject (PyInt 3), DimensionObject (PyInt 4)]
     \<lparr>name = None, shape = Some [PyRef 0, PyRef 1], dtype = Some ''float32''\<rparr>
     (Shape \<lparr>name = None, shape = None, dtype = Some ''float32''\<rparr>) = Inr False
 \<and> ShapeObject_eq [DimensionObject (PyInt 2), DimensionObject (PyInt 3), DimensionObject (PyInt 4)]
     \<lparr>name = None, shape = Some [PyRef 0, PyRef 1], dtype = Some ''float32''\<rparr>
     (Shape \<lparr>name = None, shape = Some [PyRef 0], dtype = Some ''float32''\<rparr>) = Inr False
 \<and> ShapeObject_eq [DimensionObject (PyInt 2), DimensionObject (PyInt 3), DimensionObject (PyInt 4)]
     \<lparr>name = None, shape = None, dtype = Some ''float32''\<rparr>
     (Shape \<lparr>name = None, shape = None, dtype = Some ''int64''\<rparr>) = Inr True
 \<and> ShapeObject_eq [DimensionObject (PyInt 2), DimensionObject (PyInt 3), DimensionObject (PyInt 4)]
     \<lparr>name = None, shape = Some [PyRef 0, PyRef 1, PyBytes ''x''], dtype = Some ''float32''\<rparr>
     (Shape \<lparr>name = None, shape = Some [PyRef 0, PyRef 2, PyRef 0], dtype = Some ''float32''\<rparr>)
     = Inr False"
  using
    ShapeObject_eq_cases
      [where h = "[DimensionObject (PyInt 2), DimensionObject (PyInt 3), DimensionObject (PyInt 4)]"
         and s = "\<lparr>name = None, shape = None, dtype = Some ''float32''\<rparr>"
         and b = "\<lparr>name = None, shape = Some [PyRef 0, PyRef 1], dtype = Some ''float32''\<rparr>"]
    ShapeObject_eq_cases
      [where h = "[DimensionObject (PyInt 2), DimensionObject (PyInt 3), DimensionObject (PyInt 4)]"
         and s = "\<lparr>name = None, shape = Some [PyRef 0, PyRef 1], dtype = Some ''float32''\<rparr>"
         and b = "\<lparr>name = None, shape = None, dtype = Some ''float32''\<rparr>"]
    ShapeObject_eq_cases
      [where h = "[DimensionObject (PyInt 2), DimensionObject (PyInt 3), DimensionObject (PyInt 4)]"
         and s = "\<lparr>name = None, shape = Some [PyRef 0, PyRef 1], dtype = Some ''float32''\<rparr>"
         and b = "\<lparr>name = None, shape = Some [PyRef 0], dtype = Some ''float32''\<rparr>"
         and ds = "[PyRef 0, PyRef 1]" and es = "[PyRef 0]"]
    ShapeObject_eq_cases
      [where h = "[DimensionObject (PyInt 2), DimensionObject (PyInt 3), DimensionObject (PyInt 4)]"
         and s = "\<lparr>name = None, shape = None, dtype = Some ''float32''\<rparr>"
         and b = "\<lparr>name = None, shape = None, dtype = Some ''int64''\<rparr>"]
    ShapeObject_eq_cases
      [where h = "[DimensionObject (PyInt 2), DimensionObject (PyInt 3), DimensionObject (PyInt 4)]"
         and s = "\<lparr>name = None, shape = Some [PyRef 0, PyRef 1, PyBytes ''x''], dtype = Some ''float32''\<rparr>"
         and b = "\<lparr>name = None, shape = Some [PyRef 0, PyRef 2, PyRef 0], dtype = Some ''float32''\<rparr>"
         and pre = "[PyRef 0]" and x = "PyRef 1" and post = "[PyBytes ''x'']"
         and pre' = "[PyRef 0]" and y = "PyRef 2" and post' = "[PyRef 0]"]
  by (simp add: py_eq.simps DimensionObject_eq.simps heap_get_def)

section \<open>Zero, \<^verbatim>\<open>None\<close> and \<^verbatim>\<open>'?'\<close>\<close>

lemma py_eq_plain:
  "\<not> isinstance_DimensionObject h v \<Longrightarrow> \<not> isinstance_DimensionObject h w \<Longrightarrow>
   py_eq h v w = Inr (v = w)"
  by (simp add: py_eq.simps)

lemma DimensionObject_init_None:
  "DimensionObject_init h PyNone = Inr (h @ [DimensionObject PyNone], length h)"
  by (simp add: DimensionObject_init_def alloc_def)

lemma DimensionObject_init_int:
  "DimensionObject_init h (PyInt i) =
     Inr (h @ [DimensionObject (if i = 0 then PyNone else PyInt i)], length h)"
  by (simp add: DimensionObject_init_def alloc_def py_eq_plain)

lemma DimensionObject_init_str:
  "DimensionObject_init h (PyStr s) =
     Inr (h @ [DimensionObject (if s = ''?'' then PyNone else PyStr s)], length h)"
  by (simp add: DimensionObject_init_def alloc_def py_eq_plain)

lemma DimensionObject_init_operator:
  "heap_get h a = Some (ShapeOperator k x y) \<Longrightarrow>
   DimensionObject_init h (PyRef a) = Inr (h @ [DimensionObject (PyRef a)], length h)"
  by (simp add: DimensionObject_init_def alloc_def py_eq_plain)

lemma DimensionObject_init_result:
  assumes "DimensionObject_init h obj = Inr (h', a)"
  shows "a = length h \<and> (\<exists>d. h' = h @ [DimensionObject d] \<and> d \<noteq> PyInt 0 \<and> d \<noteq> PyStr ''?''
           \<and> (d = PyNone \<or> d = obj))"
proof (cases "obj = PyInt 0 \<or> obj = PyStr ''?''")
  case True
  then show ?thesis
    using assms by (auto simp: DimensionObject_init_int DimensionObject_init_str)
next
  case False
  then show ?thesis
    using assms
    by (auto simp: DimensionObject_init_def alloc_def split: if_splits sum.splits bool.splits)
qed

text \<open>
  Claim C9. The constructor turns the integer 0 into the unknown dimension, as it
  does \<^verbatim>\<open>None\<close> and \<^verbatim>\<open>'?'\<close>: the object allocated has \<^verbatim>\<open>_dim = None\<close>. Whatever the
  argument, the object a successful construction allocates never holds the integer 0,
  so an extent of zero has no representation. And \<^verbatim>\<open>DimensionObject(0)\<close> compares
  equal to \<^verbatim>\<open>DimensionObject(None)\<close>, by \<^verbatim>\<open>__eq__\<close> and hence by \<^verbatim>\<open>==\<close>.
\<close>

theorem DimensionObject_zero_is_unknown:
  "DimensionObject_init h (PyInt 0) = Inr (h @ [DimensionObject PyNone], length h)
 \<and> DimensionObject_init h PyNone = Inr (h @ [DimensionObject PyNone], length h)
 \<and> DimensionObject_init h (PyStr ''?'') = Inr (h @ [DimensionObject PyNone], length h)
 \<and> (DimensionObject_init h obj = Inr (h', a) \<longrightarrow> heap_get h' a \<noteq> Some (DimensionObject (PyInt 0)))
 \<and> (\<exists>h1 a0 h2 aN.
        DimensionObject_init h (PyInt 0) = Inr (h1, a0)
      \<and> DimensionObject_init h1 PyNone = Inr (h2, aN)
      \<and> DimensionObject_eq h2 a0 (PyRef aN) = Inr True
      \<and> py_eq h2 (PyRef a0) (PyRef aN) = Inr True)"
proof -
  have zero: "heap_get h' a \<noteq> Some (DimensionObject (PyInt 0))"
    if "DimensionObject_init h obj = Inr (h', a)"
    using DimensionObject_init_result [OF that] by (auto simp: heap_get_def)
  have eq: "DimensionObject_eq (h @ [DimensionObject PyNone, DimensionObject PyNone]) (length h)
              (PyRef (Suc (length h))) = Inr True"
    by (simp add: DimensionObject_eq.simps py_eq.simps heap_get_def nth_append)
  have eq': "py_eq (h @ [DimensionObject PyNone, DimensionObject PyNone]) (PyRef (length h))
              (PyRef (Suc (length h))) = Inr True"
    by (simp add: DimensionObject_eq.simps py_eq.simps heap_get_def nth_append)
  show ?thesis
    using zero eq eq' by (simp add: DimensionObject_init_int DimensionObject_init_None DimensionObject_init_str)
qed

theorem DimensionObject_zero_is_unknown_witness:
  "DimensionObject_init [] (PyInt 7) = Inr ([DimensionObject (PyInt 7)], 0)
 \<and> heap_get [DimensionObject (PyInt 7)] 0 \<noteq> Some (DimensionObject (PyInt 0))
 \<and> DimensionObject_init [] (PyInt 0) = Inr ([DimensionObject PyNone], 0)"
  using DimensionObject_zero_is_unknown [of "[]" "PyInt 7" "[DimensionObject (PyInt 7)]" 0]
  by (simp add: DimensionObject_init_int heap_get_def)

section \<open>Sums and products of dimensions\<close>

lemma DimensionObject_binop_result:
  assumes "isinstance_DimensionObject h (PyRef a)" and "isinstance_DimensionObject h (PyRef b)"
  shows "DimensionObject_binop k h a (PyRef b) =
           Inr (h @ [ShapeOperator k a b, DimensionObject (PyRef (length h))], Suc (length h))"
proof -
  have same: "DimensionObject_same h (PyRef b) = Inr (h, b)"
    using assms by (simp add: DimensionObject_same_def)
  have node: "ShapeOperator_init h k (PyRef a) (PyRef b) =
                Inr (h @ [ShapeOperator k a b], length h)"
    using assms by (simp add: ShapeOperator_init_def alloc_def)
  have "heap_get (h @ [ShapeOperator k a b]) (length h) = Some (ShapeOperator k a b)"
    by (simp add: heap_get_def)
  then have "DimensionObject_init (h @ [ShapeOperator k a b]) (PyRef (length h)) =
               Inr ((h @ [ShapeOperator k a b]) @ [DimensionObject (PyRef (length h))],
                    length (h @ [ShapeOperator k a b]))"
    by (rule DimensionObject_init_operator)
  then show ?thesis
    by (simp add: DimensionObject_binop_def same node)
qed

text \<open>
  Claim C8. For two dimension objects at the addresses \<open>a\<close> and \<open>b\<close> of the store,
  \<^verbatim>\<open>a + b\<close> and \<^verbatim>\<open>a * b\<close> succeed and return the address \<open>r\<close> of a new dimension object:
  \<open>r\<close> held no object before, and its \<^verbatim>\<open>_dim\<close> is a new operator node over \<open>a\<close> and \<open>b\<close>,
  which nothing has evaluated. The store of before is the beginning of the store of
  after, so no object that existed has changed, the two operands among them.
\<close>

theorem add_mul_leave_operands:
  assumes "isinstance_DimensionObject h (PyRef a)" and "isinstance_DimensionObject h (PyRef b)"
  shows "(\<exists>h' r node.
            DimensionObject_add h a (PyRef b) = Inr (h', r)
          \<and> heap_get h r = None \<and> heap_get h node = None
          \<and> heap_get h' r = Some (DimensionObject (PyRef node))
          \<and> heap_get h' node = Some (ShapeOperator ShapeOperatorAdd a b)
          \<and> take (length h) h' = h
          \<and> heap_get h' a = heap_get h a \<and> heap_get h' b = heap_get h b)
       \<and> (\<exists>h' r node.
            DimensionObject_mul h a (PyRef b) = Inr (h', r)
          \<and> heap_get h r = None \<and> heap_get h node = None
          \<and> heap_get h' r = Some (DimensionObject (PyRef node))
          \<and> heap_get h' node = Some (ShapeOperator ShapeOperatorMul a b)
          \<and> take (length h) h' = h
          \<and> heap_get h' a = heap_get h a \<and> heap_get h' b = heap_get h b)"
proof -
  have "a < length h" and "b < length h"
    using assms by (auto simp: isinstance_DimensionObject_iff dest: heap_get_less)
  then have old: "heap_get (h @ xs) a = heap_get h a" "heap_get (h @ xs) b = heap_get h b" for xs
    by (simp_all add: heap_get_append_old)
  have new: "heap_get h (Suc (length h)) = None" "heap_get h (length h) = None"
    "heap_get (h @ [x, y]) (Suc (length h)) = Some y"
    "heap_get (h @ [x, y]) (length h) = Some x" for x y
    by (simp_all add: heap_get_def nth_append)
  show ?thesis
    unfolding DimensionObject_add_def DimensionObject_mul_def
    by (simp add: DimensionObject_binop_result [OF assms] old new)
qed

theorem add_mul_leave_operands_witness:
  "\<exists>h' r node.
      DimensionObject_add [DimensionObject (PyInt 2), DimensionObject (PyInt 3)] 0 (PyRef 1) = Inr (h', r)
    \<and> heap_get h' r = Some (DimensionObject (PyRef node))
    \<and> heap_get h' node = Some (ShapeOperator ShapeOperatorAdd 0 1)
    \<and> heap_get h' 0 = Some (DimensionObject (PyInt 2))
    \<and> heap_get h' 1 = Some (DimensionObject (PyInt 3))"
proof -
  let ?h = "[DimensionObject (PyInt 2), DimensionObject (PyInt 3)]"
  have "isinstance_DimensionObject ?h (PyRef 0)" and "isinstance_DimensionObject ?h (PyRef 1)"
    by (simp_all add: heap_get_def)
  from add_mul_leave_operands [OF this]
  obtain h' r node where
    "DimensionObject_add ?h 0 (PyRef 1) = Inr (h', r)"
    "heap_get h' r = Some (DimensionObject (PyRef node))"
    "heap_get h' node = Some (ShapeOperator ShapeOperatorAdd 0 1)"
    "heap_get h' 0 = heap_get ?h 0" "heap_get h' 1 = heap_get ?h 1"
    by blast
  moreover have "heap_get ?h 0 = Some (DimensionObject (PyInt 2))"
    and "heap_get ?h 1 = Some (DimensionObject (PyInt 3))"
    by (simp_all add: heap_get_def)
  ultimately show ?thesis
    by metis
qed

section \<open>Reading and writing past the end of a shape\<close>

lemma pad_shape_result:
  "pad_shape h ds index =
     Inr (h @ replicate (nat (index + 1 - int (length ds))) (DimensionObject (PyInt 1)),
          ds @ map PyRef [length h ..< length h + nat (index + 1 - int (length ds))])"
proof (induction h ds index rule: pad_shape.induct)
  case (1 h ds index)
  show ?case
  proof (cases "int (length ds) \<le> index")
    case False
    then show ?thesis
      by (simp add: pad_shape.simps [of h ds index])
  next
    case True
    let ?h1 = "h @ [DimensionObject (PyInt 1)]"
    let ?m = "nat (index - int (length ds))"
    have init: "DimensionObject_init h (PyInt 1) = Inr (?h1, length h)"
      by (simp add: DimensionObject_init_int)
    have m: "nat (index + 1 - int (length ds)) = Suc ?m"
      "nat (index + 1 - int (length (ds @ [PyRef (length h)]))) = ?m"
      using True by simp_all
    have "pad_shape h ds index = pad_shape ?h1 (ds @ [PyRef (length h)]) index"
      using True by (simp add: pad_shape.simps [of h ds index] init)
    also have "\<dots> = Inr (?h1 @ replicate ?m (DimensionObject (PyInt 1)),
        (ds @ [PyRef (length h)]) @ map PyRef [length ?h1 ..< length ?h1 + ?m])"
      using "1.IH" [OF True init [symmetric, THEN sym] refl] m(2) by simp
    also have "\<dots> = Inr (h @ replicate (Suc ?m) (DimensionObject (PyInt 1)),
        ds @ map PyRef [length h ..< length h + Suc ?m])"
      by (simp add: upt_conv_Cons)
    finally show ?thesis
      by (simp only: m(1))
  qed
qed

text \<open>
  Claim C7. Take a shape whose list of dimensions \<open>ds\<close> is known and an index \<open>i\<close> not
  below its rank. Reading at \<open>i\<close> returns the integer 1. Writing \<open>v\<close> at \<open>i\<close> first
  appends new dimension objects, each with \<^verbatim>\<open>_dim = 1\<close>, until the list \<open>padded\<close> has
  \<open>i + 1\<close> elements, and then stores \<open>v\<close> at position \<open>i\<close>.
\<close>

theorem getitem_setitem_past_end:
  assumes "shape self = Some ds" and "int (length ds) \<le> i"
  shows "ShapeObject_getitem self i = Inr (PyInt 1)
       \<and> (\<exists>h1 padded.
             h1 = h @ replicate (length padded - length ds) (DimensionObject (PyInt 1))
           \<and> padded = ds @ map PyRef [length h ..< length h1]
           \<and> length padded = nat i + 1
           \<and> list_all (\<lambda>d. isinstance_DimensionObject h1 d \<and> dim_of h1 d = PyInt 1)
                (drop (length ds) padded)
           \<and> ShapeObject_setitem h self i v = Inr (h1, self\<lparr>shape := Some (padded[nat i := v])\<rparr>)
           \<and> padded[nat i := v] ! nat i = v)"
proof -
  let ?m = "nat (i + 1 - int (length ds))"
  let ?h1 = "h @ replicate ?m (DimensionObject (PyInt 1))"
  let ?padded = "ds @ map PyRef [length h ..< length h + ?m]"
  have len: "length ?padded = nat i + 1"
    using assms(2) by simp
  have m: "length ?padded - length ds = ?m"
    by simp
  have new: "isinstance_DimensionObject ?h1 (PyRef j) \<and> dim_of ?h1 (PyRef j) = PyInt 1"
    if "length h \<le> j" "j < length h + ?m" for j
    using that by (simp add: dim_of_def heap_get_def nth_append)
  have ones: "list_all (\<lambda>d. isinstance_DimensionObject ?h1 d \<and> dim_of ?h1 d = PyInt 1)
                (drop (length ds) ?padded)"
    using new by (simp add: list_all_iff del: isinstance_DimensionObject.simps)
  have idx: "py_index ?padded i = Some (nat i)"
    using assms(2) by (simp add: py_index_def)
  have set: "ShapeObject_setitem h self i v = Inr (?h1, self\<lparr>shape := Some (?padded[nat i := v])\<rparr>)"
    using assms(1) idx by (simp add: ShapeObject_setitem_def pad_shape_result)
  have get: "ShapeObject_getitem self i = Inr (PyInt 1)"
    using assms by (simp add: ShapeObject_getitem_def)
  have at: "?padded[nat i := v] ! nat i = v"
    using len by (simp del: length_append)
  have "?h1 = h @ replicate (length ?padded - length ds) (DimensionObject (PyInt 1))"
    by (simp only: m)
  moreover have "?padded = ds @ map PyRef [length h ..< length ?h1]"
    by simp
  ultimately show ?thesis
    using len ones set get at by blast
qed

theorem getitem_setitem_past_end_witness:
  "ShapeObject_getitem \<lparr>name = None, shape = Some [PyRef 0], dtype = Some ''float32''\<rparr> 2 = Inr (PyInt 1)
 \<and> ShapeObject_setitem [DimensionObject (PyInt 5)]
       \<lparr>name = None, shape = Some [PyRef 0], dtype = Some ''float32''\<rparr> 2 (PyStr ''v'')
     = Inr ([DimensionObject (PyInt 5), DimensionObject (PyInt 1), DimensionObject (PyInt 1)],
            \<lparr>name = None, shape = Some [PyRef 0, PyRef 1, PyStr ''v''], dtype = Some ''float32''\<rparr>)"
proof -
  let ?s = "\<lparr>name = None, shape = Some [PyRef 0], dtype = Some ''float32''\<rparr>"
  have a: "shape ?s = Some [PyRef 0]" and b: "int (length [PyRef 0]) \<le> 2"
    by simp_all
  from getitem_setitem_past_end [OF a b, of "[DimensionObject (PyInt 5)]" "PyStr ''v''"]
  obtain h1 padded where
    g: "ShapeObject_getitem ?s 2 = Inr (PyInt 1)"
    and h1: "h1 = [DimensionObject (PyInt 5)] @ replicate (length padded - length [PyRef 0]) (DimensionObject (PyInt 1))"
    and p: "padded = [PyRef 0] @ map PyRef [length [DimensionObject (PyInt 5)] ..< length h1]"
    and l: "length padded = nat 2 + 1"
    and s: "ShapeObject_setitem [DimensionObject (PyInt 5)] ?s 2 (PyStr ''v'') =
              Inr (h1, ?s\<lparr>shape := Some (padded[nat 2 := PyStr ''v''])\<rparr>)"
    by blast
  have h1': "h1 = [DimensionObject (PyInt 5), DimensionObject (PyInt 1), DimensionObject (PyInt 1)]"
    using h1 l by (simp add: numeral_2_eq_2)
  have "padded = [PyRef 0, PyRef 1, PyRef 2]"
    using p unfolding h1' by (simp add: upt_rec)
  then show ?thesis
    using g s h1' by (simp add: numeral_2_eq_2)
qed

section \<open>The element type of a shape\<close>

lemma ShapeObject_init_dtype:
  "ShapeObject_init h sh dt use_n1 nm = Inr (h', s) \<Longrightarrow> dtype s \<noteq> None"
  by (auto simp: ShapeObject_init_def split: sum.splits prod.splits if_splits option.splits)

lemma ShapeObject_copy_dtype:
  "ShapeObject_copy h self dt nm = Inr (h', s) \<Longrightarrow> dtype s \<noteq> None"
  by (auto simp: ShapeObject_copy_def dest: ShapeObject_init_dtype split: option.splits)

lemma ShapeObject_reduce_dtype:
  "ShapeObject_reduce h self axis keepdims dt = Inr (h', s) \<Longrightarrow> dtype s \<noteq> None"
  by (auto simp: ShapeObject_reduce_def dest: ShapeObject_init_dtype ShapeObject_copy_dtype
      split: option.splits if_splits sum.splits prod.splits)

lemma ShapeObject_drop_axis_dtype:
  "ShapeObject_drop_axis s axis = Inr s' \<Longrightarrow> dtype s' = dtype s"
  by (auto simp: ShapeObject_drop_axis_def split: option.splits sum.splits)

lemma ShapeObject_squeeze_dtype:
  "ShapeObject_squeeze h self axis = Inr (h', s) \<Longrightarrow> dtype s \<noteq> None"
  by (auto simp: ShapeObject_squeeze_def
      dest!: ShapeObject_copy_dtype ShapeObject_drop_axis_dtype
      split: sum.splits prod.splits)

lemma ShapeObject_transpose_dtype:
  "ShapeObject_transpose h self perm = Inr (h', s) \<Longrightarrow> dtype s \<noteq> None"
  by (auto simp: ShapeObject_transpose_def dest: ShapeObject_init_dtype ShapeObject_copy_dtype
      split: option.splits sum.splits prod.splits)

lemma ShapeObject_evaluate_dtype:
  "ShapeObject_evaluate h self kwargs = Inr (h', s) \<Longrightarrow> dtype s \<noteq> None"
  by (auto simp: ShapeObject_evaluate_def dest: ShapeObject_init_dtype
      split: sum.splits if_splits)

lemma ShapeObject_init_no_dtype:
  "ShapeObject_fields h sh dt = Inr (h1, shp, None) \<Longrightarrow>
   ShapeObject_init h sh dt use_n1 nm = Inl ValueError"
  by (simp add: ShapeObject_init_def)

text \<open>
  Claim C10. A shape object that a construction returns has an element type other than
  \<^verbatim>\<open>None\<close>, because the constructor raises \<^verbatim>\<open>ValueError\<close> when the element type it has
  worked out is \<^verbatim>\<open>None\<close>; and the shape that \<^verbatim>\<open>copy\<close>, \<^verbatim>\<open>reduce\<close>, \<^verbatim>\<open>squeeze\<close>,
  \<^verbatim>\<open>transpose\<close> or \<^verbatim>\<open>evaluate\<close> returns has an element type other than \<^verbatim>\<open>None\<close>.
\<close>

theorem ShapeObject_dtype_not_None:
  "(ShapeObject_init h sh dt use_n nm = Inr (h', s) \<longrightarrow> dtype s \<noteq> None)
 \<and> (ShapeObject_fields h sh dt = Inr (hf, shp, None) \<longrightarrow>
        ShapeObject_init h sh dt use_n nm = Inl ValueError)
 \<and> (ShapeObject_copy h self dt nm = Inr (h', s) \<longrightarrow> dtype s \<noteq> None)
 \<and> (ShapeObject_reduce h self axis keepdims dt = Inr (h', s) \<longrightarrow> dtype s \<noteq> None)
 \<and> (ShapeObject_squeeze h self axes = Inr (h', s) \<longrightarrow> dtype s \<noteq> None)
 \<and> (ShapeObject_transpose h self perm = Inr (h', s) \<longrightarrow> dtype s \<noteq> None)
 \<and> (ShapeObject_evaluate h self kwargs = Inr (h', s) \<longrightarrow> dtype s \<noteq> None)"
proof (intro conjI impI)
  assume "ShapeObject_fields h sh dt = Inr (hf, shp, None)"
  then show "ShapeObject_init h sh dt use_n nm = Inl ValueError"
    by (rule ShapeObject_init_no_dtype)
qed (erule ShapeObject_init_dtype ShapeObject_copy_dtype ShapeObject_reduce_dtype
      ShapeObject_squeeze_dtype ShapeObject_transpose_dtype ShapeObject_evaluate_dtype)+

theorem ShapeObject_dtype_not_None_witness:
  "(\<exists>h' s. ShapeObject_init [] (Sequence [PyInt 2, PyInt 3]) (Some ''float32'') False None = Inr (h', s)
          \<and> dtype s \<noteq> None)
 \<and> ShapeObject_fields [] NoneShape None = Inr ([], None, None)
 \<and> ShapeObject_init [] NoneShape None False None = Inl ValueError
 \<and> (\<exists>h' s. ShapeObject_copy [DimensionObject (PyInt 2), DimensionObject (PyInt 3)]
             \<lparr>name = None, shape = Some [PyRef 0, PyRef 1], dtype = Some ''float32''\<rparr>
             None None = Inr (h', s) \<and> dtype s \<noteq> None)
 \<and> (\<exists>h' s. ShapeObject_reduce [DimensionObject (PyInt 2), DimensionObject (PyInt 3)]
             \<lparr>name = None, shape = Some [PyRef 0, PyRef 1], dtype = Some ''float32''\<rparr>
             1 False None = Inr (h', s) \<and> dtype s \<noteq> None)
 \<and> (\<exists>h' s. ShapeObject_squeeze [DimensionObject (PyInt 2), DimensionObject (PyInt 3)]
             \<lparr>name = None, shape = Some [PyRef 0, PyRef 1], dtype = Some ''float32''\<rparr>
             (Axis 0) = Inr (h', s) \<and> dtype s \<noteq> None)
 \<and> (\<exists>h' s. ShapeObject_transpose [DimensionObject (PyInt 2), DimensionObject (PyInt 3)]
             \<lparr>name = None, shape = Some [PyRef 0, PyRef 1], dtype = Some ''float32''\<rparr>
             [1, 0] = Inr (h', s) \<and> dtype s \<noteq> None)
 \<and> (\<exists>h' s. ShapeObject_evaluate [DimensionObject (PyInt 2), DimensionObject (PyInt 3)]
             \<lparr>name = None, shape = Some [PyRef 0, PyRef 1], dtype = Some ''float32''\<rparr>
             Map.empty = Inr (h', s) \<and> dtype s \<noteq> None)"
proof -
  let ?h = "[DimensionObject (PyInt 2), DimensionObject (PyInt 3)]"
  let ?s = "\<lparr>name = None, shape = Some [PyRef 0, PyRef 1], dtype = Some ''float32''\<rparr>"
  have 1: "ShapeObject_init [] (Sequence [PyInt 2, PyInt 3]) (Some ''float32'') False None =
      Inr (?h, ?s)"
    by code_simp
  have 2: "ShapeObject_fields [] NoneShape None = Inr ([], None, None)"
    by code_simp
  have 3: "ShapeObject_copy ?h ?s None None =
      Inr (?h @ [DimensionObject (PyRef 0), DimensionObject (PyRef 1)],
           \<lparr>name = None, shape = Some [PyRef 2, PyRef 3], dtype = Some ''float32''\<rparr>)"
    by code_simp
  have 4: "ShapeObject_reduce ?h ?s 1 False None =
      Inr (?h @ [DimensionObject (PyRef 0)],
           \<lparr>name = Some ''None-RD'', shape = Some [PyRef 2], dtype = Some ''float32''\<rparr>)"
    by code_simp
  have 5: "ShapeObject_squeeze ?h ?s (Axis 0) =
      Inr (?h @ [DimensionObject (PyRef 0), DimensionObject (PyRef 1)],
           \<lparr>name = Some ''None-SZ'', shape = Some [PyRef 3], dtype = Some ''float32''\<rparr>)"
    by code_simp
  have 6: "ShapeObject_transpose ?h ?s [1, 0] =
      Inr (?h @ [DimensionObject PyNone, DimensionObject PyNone],
           \<lparr>name = Some ''None-TR'', shape = Some [PyRef 1, PyRef 0], dtype = Some ''float32''\<rparr>)"
    by code_simp
  have 7: "ShapeObject_evaluate ?h ?s Map.empty =
      Inr (?h @ [DimensionObject (PyInt 2), DimensionObject (PyInt 3)],
           \<lparr>name = Some ''None-EV'', shape = Some [PyRef 2, PyRef 3], dtype = Some ''float32''\<rparr>)"
    by code_simp
  note main = ShapeObject_dtype_not_None
  show ?thesis
    using
      main [where h = "[]" and sh = "Sequence [PyInt 2, PyInt 3]" and dt = "Some ''float32''"
          and use_n = False and nm = None and h' = ?h and s = ?s]
      main [where h = "[]" and sh = NoneShape and dt = None and use_n = False and nm = None
          and hf = "[]" and shp = None]
      main [where h = ?h and self = ?s and dt = None and nm = None
          and h' = "?h @ [DimensionObject (PyRef 0), DimensionObject (PyRef 1)]"
          and s = "\<lparr>name = None, shape = Some [PyRef 2, PyRef 3], dtype = Some ''float32''\<rparr>"]
      main [where h = ?h and self = ?s and dt = None and axis = 1 and keepdims = False
          and h' = "?h @ [DimensionObject (PyRef 0)]"
          and s = "\<lparr>name = Some ''None-RD'', shape = Some [PyRef 2], dtype = Some ''float32''\<rparr>"]
      main [where h = ?h and self = ?s and axes = "Axis 0"
          and h' = "?h @ [DimensionObject (PyRef 0), DimensionObject (PyRef 1)]"
          and s = "\<lparr>name = Some ''None-SZ'', shape = Some [PyRef 3], dtype = Some ''float32''\<rparr>"]
      main [where h = ?h and self = ?s and perm = "[1, 0]"
          and h' = "?h @ [DimensionObject PyNone, DimensionObject PyNone]"
          and s = "\<lparr>name = Some ''None-TR'', shape = Some [PyRef 1, PyRef 0], dtype = Some ''float32''\<rparr>"]
      main [where h = ?h and self = ?s and kwargs = Map.empty
          and h' = "?h @ [DimensionObject (PyInt 2), DimensionObject (PyInt 3)]"
          and s = "\<lparr>name = Some ''None-EV'', shape = Some [PyRef 2, PyRef 3], dtype = Some ''float32''\<rparr>"]
      1 2 3 4 5 6 7
    by simp
qed

section \<open>Evaluating a sum\<close>

lemma evaluate_self: "kwargs ''self'' = Some v \<Longrightarrow> evaluate h kwargs a = Inl TypeError"
  by (simp add: evaluate.simps [of h kwargs a])

lemma evaluate_append:
  "a < length h \<Longrightarrow> evaluate (h @ xs) kwargs a = evaluate h kwargs a"
proof (induction h kwargs a rule: evaluate.induct)
  case (1 h kwargs a)
  have get: "heap_get (h @ xs) a = heap_get h a"
    using "1.prems" by (rule heap_get_append_old)
  show ?case
  proof (cases "kwargs ''self''")
    case (Some v)
    then show ?thesis
      by (simp add: evaluate_self)
  next
    case self: None
    then have nself: "\<not> kwargs ''self'' \<noteq> None"
      by simp
    show ?thesis
    proof (cases "heap_get h a")
      case None
      then show ?thesis
        by (simp add: evaluate.simps [of _ kwargs a] get)
    next
      case (Some ob)
      show ?thesis
      proof (cases ob)
        case (DimensionObject d)
        show ?thesis
        proof (cases d)
          case (PyRef r)
          show ?thesis
          proof (cases "r < a")
            case True
            then have "evaluate (h @ xs) kwargs r = evaluate h kwargs r"
              using "1.IH"(1) [OF nself Some DimensionObject PyRef True] "1.prems" by simp
            then show ?thesis
              using True by (simp add: evaluate.simps [of _ kwargs a] get Some DimensionObject PyRef)
          next
            case False
            then show ?thesis
              by (simp add: evaluate.simps [of _ kwargs a] get Some DimensionObject PyRef)
          qed
        qed (simp_all add: evaluate.simps [of _ kwargs a] get Some DimensionObject)
      next
        case (ShapeOperator k x y)
        show ?thesis
        proof (cases "x < a \<and> y < a")
          case True
          have x: "evaluate (h @ xs) kwargs x = evaluate h kwargs x"
            using "1.IH"(2) [OF nself Some ShapeOperator True] True "1.prems" by simp
          have y: "evaluate (h @ xs) kwargs y = evaluate h kwargs y"
            if "evaluate h kwargs x = Inr vx" for vx
            using "1.IH"(3) [OF nself Some ShapeOperator True that] True "1.prems" by simp
          show ?thesis
            using True x y
            by (simp add: evaluate.simps [of _ kwargs a] get Some ShapeOperator split: sum.splits)
        next
          case False
          then have "evaluate h' kwargs a = Inl RecursionError"
            if "heap_get h' a = Some (ShapeOperator k x y)" for h'
            using that self by (auto simp: evaluate.simps [of h' kwargs a])
          then show ?thesis
            using get Some ShapeOperator by simp
        qed
      qed
    qed
  qed
qed

lemma evaluate_binop:
  assumes a: "isinstance_DimensionObject h (PyRef a)" and b: "isinstance_DimensionObject h (PyRef b)"
    and x: "evaluate h kwargs a = Inr x" and y: "evaluate h kwargs b = Inr y"
  shows "evaluate (h @ [ShapeOperator k a b, DimensionObject (PyRef (length h))]) kwargs
           (Suc (length h)) = Inr (apply_operator k x y)"
proof -
  let ?h' = "h @ [ShapeOperator k a b, DimensionObject (PyRef (length h))]"
  have self: "kwargs ''self'' = None"
    using x by (cases "kwargs ''self''") (simp_all add: evaluate_self)
  have lt: "a < length h" "b < length h"
    using a b by (auto simp: isinstance_DimensionObject_iff dest: heap_get_less)
  have ea: "evaluate ?h' kwargs a = Inr x" and eb: "evaluate ?h' kwargs b = Inr y"
    using lt x y by (simp_all add: evaluate_append)
  have node: "evaluate ?h' kwargs (length h) = Inr (apply_operator k x y)"
    using lt ea eb self
    by (simp add: evaluate.simps [of ?h' kwargs "length h"] heap_get_def nth_append)
  show ?thesis
    using node self
    by (simp add: evaluate.simps [of ?h' kwargs "Suc (length h)"] heap_get_def nth_append)
qed

lemma evaluate_known:
  assumes "kwargs ''self'' = None"
  shows "constructed h a \<Longrightarrow> \<not> has_unknown h a \<Longrightarrow>
         list_all (resolves kwargs) (free_symbols h a) \<Longrightarrow>
         \<exists>i. evaluate h kwargs a = Inr (VInt i)"
proof (induction h a rule: leaves.induct)
  case (1 h a)
  note self = assms
  show ?case
  proof (cases "heap_get h a")
    case None
    with "1.prems"(1) show ?thesis
      by (simp add: constructed_def leaves.simps [of h a])
  next
    case (Some ob)
    show ?thesis
    proof (cases ob)
      case (DimensionObject d)
      show ?thesis
      proof (cases d)
        case (PyRef r)
        show ?thesis
        proof (cases "r < a")
          case True
          have l: "leaves h a = leaves h r"
            using True by (simp add: leaves.simps [of h a] Some DimensionObject PyRef)
          have "\<exists>i. evaluate h kwargs r = Inr (VInt i)"
            using "1.IH"(1) [OF Some DimensionObject PyRef True] "1.prems"
            by (simp add: constructed_def has_unknown_def free_symbols_def l)
          then show ?thesis
            using True self
            by (simp add: evaluate.simps [of h kwargs a] Some DimensionObject PyRef)
        next
          case False
          with "1.prems"(1) show ?thesis
            by (simp add: constructed_def leaves.simps [of h a] Some DimensionObject PyRef)
        qed
      next
        case PyNone
        with "1.prems"(2) show ?thesis
          by (simp add: has_unknown_def leaves.simps [of h a] Some DimensionObject)
      next
        case (PyInt i)
        then show ?thesis
          using self by (simp add: evaluate.simps [of h kwargs a] Some DimensionObject)
      next
        case (PyStr s)
        with "1.prems"(3) show ?thesis
          using self
          by (simp add: free_symbols_def leaves.simps [of h a] resolves_def
              evaluate.simps [of h kwargs a] Some DimensionObject
              split: option.splits val.splits)
      next
        case (PyBytes b)
        with "1.prems"(1) show ?thesis
          by (simp add: constructed_def leaves.simps [of h a] Some DimensionObject)
      qed
    next
      case (ShapeOperator k x y)
      show ?thesis
      proof (cases "x < a \<and> y < a")
        case True
        have l: "leaves h a = leaves h x @ leaves h y"
          using True by (simp add: leaves.simps [of h a] Some ShapeOperator)
        obtain i where i: "evaluate h kwargs x = Inr (VInt i)"
          using "1.IH"(2) [OF Some ShapeOperator True] "1.prems"
          by (auto simp: constructed_def has_unknown_def free_symbols_def l)
        obtain j where j: "evaluate h kwargs y = Inr (VInt j)"
          using "1.IH"(3) [OF Some ShapeOperator True] "1.prems"
          by (auto simp: constructed_def has_unknown_def free_symbols_def l)
        show ?thesis
          using True i j self by (simp add: evaluate.simps [of h kwargs a] Some ShapeOperator)
      next
        case False
        with "1.prems"(1) show ?thesis
          by (auto simp: constructed_def leaves.simps [of h a] Some ShapeOperator)
      qed
    qed
  qed
qed

text \<open>
  Claim C5, as the code has it. Let \<open>a\<close> and \<open>b\<close> be two dimensions, built by the
  constructors, that hold no unknown dimension, and let the binding be one that
  \<^verbatim>\<open>evaluate\<close> accepts (it does not bind \<^verbatim>\<open>self\<close>) and that resolves every free symbol
  of \<open>a\<close> and \<open>b\<close> to an integer. Then \<open>a\<close> and \<open>b\<close> evaluate to integers \<open>x\<close> and \<open>y\<close>,
  \<^verbatim>\<open>a + b\<close> is built, and it evaluates to \<open>x + y\<close> under the same binding.
\<close>

theorem evaluate_add:
  assumes "isinstance_DimensionObject h (PyRef a)" and "isinstance_DimensionObject h (PyRef b)"
    and "constructed h a" and "constructed h b"
    and "kwargs ''self'' = None"
    and "list_all (resolves kwargs) (free_symbols h a)"
    and "list_all (resolves kwargs) (free_symbols h b)"
    and "\<not> has_unknown h a" and "\<not> has_unknown h b"
  shows "\<exists>x y h' r.
           evaluate h kwargs a = Inr (VInt x) \<and> evaluate h kwargs b = Inr (VInt y)
         \<and> DimensionObject_add h a (PyRef b) = Inr (h', r)
         \<and> evaluate h' kwargs r = Inr (VInt (x + y))"
proof -
  obtain x where x: "evaluate h kwargs a = Inr (VInt x)"
    using evaluate_known [OF assms(5,3,8,6)] by blast
  obtain y where y: "evaluate h kwargs b = Inr (VInt y)"
    using evaluate_known [OF assms(5,4,9,7)] by blast
  have "evaluate (h @ [ShapeOperator ShapeOperatorAdd a b, DimensionObject (PyRef (length h))])
          kwargs (Suc (length h)) = Inr (VInt (x + y))"
    using evaluate_binop [OF assms(1,2) x y, of ShapeOperatorAdd] by simp
  then show ?thesis
    using x y DimensionObject_binop_result [OF assms(1,2), of ShapeOperatorAdd]
    by (simp add: DimensionObject_add_def)
qed

theorem evaluate_add_witness:
  "\<exists>h' r.
      evaluate [DimensionObject (PyStr ''n''), DimensionObject (PyInt 3)] [''n'' \<mapsto> VInt 4] 0 = Inr (VInt 4)
    \<and> evaluate [DimensionObject (PyStr ''n''), DimensionObject (PyInt 3)] [''n'' \<mapsto> VInt 4] 1 = Inr (VInt 3)
    \<and> DimensionObject_add [DimensionObject (PyStr ''n''), DimensionObject (PyInt 3)] 0 (PyRef 1) = Inr (h', r)
    \<and> evaluate h' [''n'' \<mapsto> VInt 4] r = Inr (VInt 7)"
proof -
  let ?h = "[DimensionObject (PyStr ''n''), DimensionObject (PyInt 3)]"
  let ?kw = "[''n'' \<mapsto> VInt 4]"
  have i: "isinstance_DimensionObject ?h (PyRef 0)" "isinstance_DimensionObject ?h (PyRef 1)"
    by (simp_all add: heap_get_def)
  have c: "constructed ?h 0" "constructed ?h 1"
    by (simp_all add: constructed_def leaves.simps heap_get_def)
  have s: "?kw ''self'' = None"
    by simp
  have r: "list_all (resolves ?kw) (free_symbols ?h 0)" "list_all (resolves ?kw) (free_symbols ?h 1)"
    by (simp_all add: free_symbols_def leaves.simps heap_get_def resolves_def)
  have u: "\<not> has_unknown ?h 0" "\<not> has_unknown ?h 1"
    by (simp_all add: has_unknown_def leaves.simps heap_get_def)
  have e: "evaluate ?h ?kw 0 = Inr (VInt 4)" "evaluate ?h ?kw 1 = Inr (VInt 3)"
    by (simp_all add: evaluate.simps heap_get_def)
  from evaluate_add [OF i c s r u] obtain x y h' r where
    "evaluate ?h ?kw 0 = Inr (VInt x)" "evaluate ?h ?kw 1 = Inr (VInt y)"
    "DimensionObject_add ?h 0 (PyRef 1) = Inr (h', r)"
    "evaluate h' ?kw r = Inr (VInt (x + y))"
    by blast
  with e show ?thesis
    by auto
qed

text \<open>
  Claim C5 as the specification words it covers every two dimensions. Take the
  unknown dimension at address 0, the dimension 3 at address 1 and the empty binding.
  Neither dimension has a free symbol, so the binding resolves all of them. The unknown
  dimension evaluates to the name made from its \<^verbatim>\<open>id\<close>, a string, and the sum built
  at address 3 evaluates to a string too, not to an integer.
\<close>

theorem evaluate_add_unknown_counterexample:
  "free_symbols [DimensionObject PyNone, DimensionObject (PyInt 3)] 0 = []
 \<and> free_symbols [DimensionObject PyNone, DimensionObject (PyInt 3)] 1 = []
 \<and> evaluate [DimensionObject PyNone, DimensionObject (PyInt 3)] Map.empty 0
     = Inr (VStr (''n'' @ hex (obj_id 0)))
 \<and> evaluate [DimensionObject PyNone, DimensionObject (PyInt 3)] Map.empty 1 = Inr (VInt 3)
 \<and> DimensionObject_add [DimensionObject PyNone, DimensionObject (PyInt 3)] 0 (PyRef 1)
     = Inr ([DimensionObject PyNone, DimensionObject (PyInt 3),
             ShapeOperator ShapeOperatorAdd 0 1, DimensionObject (PyRef 2)], 3)
 \<and> evaluate [DimensionObject PyNone, DimensionObject (PyInt 3),
             ShapeOperator ShapeOperatorAdd 0 1, DimensionObject (PyRef 2)] Map.empty 3
     = Inr (VStr (''(n'' @ hex (obj_id 0) @ '')+(3)''))"
  by (simp add: free_symbols_def leaves.simps DimensionObject_add_def DimensionObject_binop_def
      DimensionObject_same_def ShapeOperator_init_def DimensionObject_init_def alloc_def
      py_eq.simps evaluate.simps heap_get_def decimal.simps str_int_def digit_char_def)

section \<open>The score of LinearRegressor\<close>

text \<open>
  Claim C4. The kernel with the coefficients \<^verbatim>\<open>[1, 2]\<close>, the intercepts \<^verbatim>\<open>[1]\<close>, one
  target and the post-transform \<^verbatim>\<open>NONE\<close> is built, and on the vector \<^verbatim>\<open>[3, 4]\<close> it
  returns the one score \<open>3 * 1 + 4 * 2 + 1 = 12\<close>.
\<close>

theorem LinearRegressor_example:
  "LinearRegressor_init
     \<lparr>coefficients = Some [1, 2], intercepts = Some [1], targets = 1, post_transform = ''NONE''\<rparr>
     = Inr \<lparr>weights = [[1, 2]], bias = Some [1], transform = ''NONE''\<rparr>
 \<and> LinearRegressor_run \<lparr>weights = [[1, 2]], bias = Some [1], transform = ''NONE''\<rparr>
       (Vector [3, 4])
     = Inr (Vector [3 * 1 + 4 * 2 + 1])
 \<and> LinearRegressor_run \<lparr>weights = [[1, 2]], bias = Some [1], transform = ''NONE''\<rparr>
       (Vector [3, 4])
     = Inr (Vector [12])"
  by (simp add: LinearRegressor_init_def reshape_def LinearRegressor_run_def
      LinearRegressor_score_def dot_vector_def add_intercepts_def)

lemma LinearRegressor_score_agree:
  "(\<exists>score. LinearRegressor_score k x = Inr score) \<longleftrightarrow> shapes_agree k x"
  by (cases x)
    (auto simp: LinearRegressor_score_def shapes_agree_def dot_vector_def dot_matrix_def
      add_intercepts_def add_intercepts_matrix_def split: option.splits sum.splits if_splits)

lemma LinearRegressor_score_error:
  "LinearRegressor_score k x = Inl e \<Longrightarrow> e = ValueError"
  by (cases x)
    (auto simp: LinearRegressor_score_def dot_vector_def dot_matrix_def
      add_intercepts_def add_intercepts_matrix_def split: option.splits sum.splits if_splits)

lemma LinearRegressor_score_disagree:
  "\<not> shapes_agree k x \<Longrightarrow> LinearRegressor_score k x = Inl ValueError"
  using LinearRegressor_score_agree [of k x] LinearRegressor_score_error [of k x]
  by (cases "LinearRegressor_score k x") auto

text \<open>
  Claim C6, as the code has it. \<^verbatim>\<open>_run\<close> computes the score first. When numpy does
  not accept the shapes of the input, of the coefficients and of the intercepts, \<^verbatim>\<open>_run\<close>
  raises numpy's \<^verbatim>\<open>ValueError\<close>, whatever the post-transform. When it accepts them, the
  score is computed; then \<^verbatim>\<open>_run\<close> raises \<^verbatim>\<open>NotImplementedError\<close> if the post-transform
  is not \<^verbatim>\<open>NONE\<close> and returns the score as it is if it is \<^verbatim>\<open>NONE\<close>, so on these inputs
  it raises an error if and only if the post-transform is not \<^verbatim>\<open>NONE\<close>. On every input,
  a kernel whose post-transform is not \<^verbatim>\<open>NONE\<close> raises an error and returns no result.
\<close>

theorem LinearRegressor_post_transform:
  "(\<not> shapes_agree k x \<longrightarrow> LinearRegressor_run k x = Inl ValueError)
 \<and> (shapes_agree k x \<longrightarrow>
       (\<exists>score. LinearRegressor_score k x = Inr score
          \<and> (transform k \<noteq> ''NONE'' \<longrightarrow> LinearRegressor_run k x = Inl NotImplementedError)
          \<and> (transform k = ''NONE'' \<longrightarrow> LinearRegressor_run k x = Inr score))
     \<and> ((\<exists>e. LinearRegressor_run k x = Inl e) \<longleftrightarrow> transform k \<noteq> ''NONE''))
 \<and> (transform k \<noteq> ''NONE'' \<longrightarrow> (\<exists>e. LinearRegressor_run k x = Inl e))"
proof (intro conjI impI)
  assume "\<not> shapes_agree k x"
  then show "LinearRegressor_run k x = Inl ValueError"
    by (simp add: LinearRegressor_run_def LinearRegressor_score_disagree)
next
  assume "shapes_agree k x"
  then obtain score where "LinearRegressor_score k x = Inr score"
    using LinearRegressor_score_agree [of k x] by blast
  then show "\<exists>score. LinearRegressor_score k x = Inr score
      \<and> (transform k \<noteq> ''NONE'' \<longrightarrow> LinearRegressor_run k x = Inl NotImplementedError)
      \<and> (transform k = ''NONE'' \<longrightarrow> LinearRegressor_run k x = Inr score)"
    and "(\<exists>e. LinearRegressor_run k x = Inl e) \<longleftrightarrow> transform k \<noteq> ''NONE''"
    by (simp_all add: LinearRegressor_run_def)
next
  assume "transform k \<noteq> ''NONE''"
  then show "\<exists>e. LinearRegressor_run k x = Inl e"
    by (simp add: LinearRegressor_run_def split: sum.splits)
qed

theorem LinearRegressor_post_transform_witness:
  "shapes_agree \<lparr>weights = [[1, 2]], bias = Some [1], transform = ''LOGISTIC''\<rparr> (Vector [3, 4])
 \<and> LinearRegressor_run \<lparr>weights = [[1, 2]], bias = Some [1], transform = ''LOGISTIC''\<rparr>
     (Vector [3, 4]) = Inl NotImplementedError
 \<and> shapes_agree \<lparr>weights = [[1, 2]], bias = Some [1], transform = ''NONE''\<rparr> (Vector [3, 4])
 \<and> LinearRegressor_score \<lparr>weights = [[1, 2]], bias = Some [1], transform = ''NONE''\<rparr>
     (Vector [3, 4]) = Inr (Vector [12])
 \<and> LinearRegressor_run \<lparr>weights = [[1, 2]], bias = Some [1], transform = ''NONE''\<rparr>
     (Vector [3, 4]) = Inr (Vector [12])
 \<and> \<not> shapes_agree \<lparr>weights = [[1, 2]], bias = Some [1], transform = ''LOGISTIC''\<rparr>
     (Matrix 5 [])
 \<and> LinearRegressor_run \<lparr>weights = [[1, 2]], bias = Some [1], transform = ''LOGISTIC''\<rparr>
     (Matrix 5 []) = Inl ValueError"
proof -
  have s: "LinearRegressor_score \<lparr>weights = [[1, 2]], bias = Some [1], transform = t\<rparr>
             (Vector [3, 4]) = Inr (Vector [12])" for t
    by (simp add: LinearRegressor_score_def dot_vector_def add_intercepts_def)
  have a: "shapes_agree \<lparr>weights = [[1, 2]], bias = Some [1], transform = t\<rparr> (Vector [3, 4])"
    and d: "\<not> shapes_agree \<lparr>weights = [[1, 2]], bias = Some [1], transform = t\<rparr> (Matrix 5 [])"
    for t
    by (simp_all add: shapes_agree_def)
  show ?thesis
    using
      LinearRegressor_post_transform
        [where k = "\<lparr>weights = [[1, 2]], bias = Some [1], transform = ''LOGISTIC''\<rparr>"
           and x = "Vector [3, 4]"]
      LinearRegressor_post_transform
        [where k = "\<lparr>weights = [[1, 2]], bias = Some [1], transform = ''NONE''\<rparr>"
           and x = "Vector [3, 4]"]
      LinearRegressor_post_transform
        [where k = "\<lparr>weights = [[1, 2]], bias = Some [1], transform = ''LOGISTIC''\<rparr>"
           and x = "Matrix 5 []"]
    by (simp add: s a d)
qed

text \<open>
  Claim C6 as the specification words it has an error raised if and only if the
  post-transform is not \<^verbatim>\<open>NONE\<close>. The kernel of two coefficients with the post-transform
  \<^verbatim>\<open>NONE\<close> raises \<^verbatim>\<open>ValueError\<close> on a vector of three elements.
\<close>

theorem LinearRegressor_shape_error_counterexample:
  "LinearRegressor_init
     \<lparr>coefficients = Some [1, 2], intercepts = Some [1], targets = 1, post_transform = ''NONE''\<rparr>
     = Inr \<lparr>weights = [[1, 2]], bias = Some [1], transform = ''NONE''\<rparr>
 \<and> transform \<lparr>weights = [[1, 2]], bias = Some [1], transform = ''NONE''\<rparr> = ''NONE''
 \<and> LinearRegressor_run \<lparr>weights = [[1, 2]], bias = Some [1], transform = ''NONE''\<rparr>
     (Vector [3, 4, 5]) = Inl ValueError"
  by (simp add: LinearRegressor_init_def reshape_def LinearRegressor_run_def
      LinearRegressor_score_def dot_vector_def)

section \<open>The lookup of LabelEncoder\<close>











text \<open>
  A \<^verbatim>\<open>bytes\<close> key is not found by a \<^verbatim>\<open>str\<close> element: with the keys \<^verbatim>\<open>[b'1', b'2']\<close>
  the input \<^verbatim>\<open>['1', '3']\<close> gives the default twice.
\<close>

lemma LabelEncoder_bytes_keys:
  "LabelEncoder_run (StrEncoder [(Bytes ''1'', Str ''a''), (Bytes ''2'', Str ''b'')] (Bytes ''z''))
     (StrArray [''1'', ''3'']) = Inr (StrArray [''z'', ''z''])"
  by (simp add: dict_get_def store_str_def)

end
